theory Spec2Isabelle
  imports Main "HOL-Library.Word" "HOL-Library.AList"
begin

unbundle bit_operations_syntax

section \<open>Python values\<close>

text \<open>
  The dispatcher of \<^verbatim>\<open>message_handler.py\<close> works on Python dictionaries whose values are
  dynamically typed. The values modelled here are the ones a JSON message and a handler
  result can hold: \<^verbatim>\<open>None\<close>, booleans, integers, text, binary data and lists. A
  \<^verbatim>\<open>str\<close> is a list of characters, each standing for a code point below 256 (the code
  points from 128 on are the non-ASCII ones); a \<^verbatim>\<open>bytes\<close> object is a list of 8-bit words.
\<close>

type_synonym byte = "8 word"

datatype pyval =
    PNone
  | PBool bool
  | PInt int
  | PStr string
  | PBytes "byte list"
  | PList "pyval list"

text \<open>The exceptions of the module, and the built-in ones its operations can meet. A
  constructor's text is what \<^verbatim>\<open>str(error)\<close> gives. \<open>OtherException\<close> is any
  other class derived from \<^verbatim>\<open>Exception\<close>; \<open>NonException\<close> is a class derived from
  \<^verbatim>\<open>BaseException\<close> only (\<^verbatim>\<open>KeyboardInterrupt\<close>, \<^verbatim>\<open>SystemExit\<close>).\<close>

datatype pyexc =
    UnrecognizedFileTypeError
  | MissingPayloadError
  | PayloadNotBase64Error
  | CantEncodePayloadError
  | KeyError string
  | BinasciiError string
  | ValueError string
  | TypeError string
  | UnboundLocalError string
  | OtherException string
  | NonException string

section \<open>The standard library's base64 codec\<close>

text \<open>
  \<^verbatim>\<open>base64.b64encode\<close> and \<^verbatim>\<open>base64.b64decode\<close> belong to the Python standard library
  (CPython 3.11, \<^verbatim>\<open>Lib/base64.py\<close> and \<^verbatim>\<open>Modules/binascii.c\<close>), not to the module.
  They are modelled after that implementation: the encoder in groups of three bytes, the
  decoder as the state machine of \<^verbatim>\<open>binascii.a2b_base64\<close> in its default, non-strict
  mode, which skips every character that is not in the alphabet.
\<close>

definition table_b2a_base64 :: string where
  "table_b2a_base64 = ''ABCDEFGHIJKLMNOPQRSTUVWXYZabcdefghijklmnopqrstuvwxyz0123456789+/''"

definition BASE64_PAD :: byte where
  "BASE64_PAD = 0x3D"

definition b2a_char :: "byte \<Rightarrow> byte" where
  "b2a_char v = of_char (table_b2a_base64 ! unat (v AND 0x3F))"

fun b2a_base64 :: "byte list \<Rightarrow> byte list" where
  "b2a_base64 [] = []"
| "b2a_base64 [a] =
     [b2a_char (drop_bit 2 a), b2a_char (push_bit 4 (a AND 3)), BASE64_PAD, BASE64_PAD]"
| "b2a_base64 [a, b] =
     [b2a_char (drop_bit 2 a), b2a_char (push_bit 4 (a AND 3) OR drop_bit 4 b),
      b2a_char (push_bit 2 (b AND 0xF)), BASE64_PAD]"
| "b2a_base64 (a # b # c # rest) =
     [b2a_char (drop_bit 2 a), b2a_char (push_bit 4 (a AND 3) OR drop_bit 4 b),
      b2a_char (push_bit 2 (b AND 0xF) OR drop_bit 6 c), b2a_char (c AND 0x3F)]
     @ b2a_base64 rest"

text \<open>The decoding table: the 6-bit value of an alphabet character, 0 for the padding
  character (which the decoder handles before it consults the table), and 255 (the C
  table's \<open>-1\<close>) for every other byte.\<close>

definition table_a2b_base64 :: "byte \<Rightarrow> byte" where
  "table_a2b_base64 c =
     (if 0x41 \<le> c \<and> c \<le> 0x5A then c - 0x41
      else if 0x61 \<le> c \<and> c \<le> 0x7A then c - 0x61 + 26
      else if 0x30 \<le> c \<and> c \<le> 0x39 then c - 0x30 + 52
      else if c = 0x2B then 62
      else if c = 0x2F then 63
      else if c = 0x3D then 0
      else 0xFF)"

fun dec_nat :: "nat \<Rightarrow> string" where
  "dec_nat n =
     (if n < 10 then [char_of (48 + n)] else dec_nat (n div 10) @ [char_of (48 + n mod 10)])"

declare dec_nat.simps [simp del]

fun a2b_loop :: "byte list \<Rightarrow> nat \<Rightarrow> byte \<Rightarrow> nat \<Rightarrow> byte list \<Rightarrow> pyexc + byte list" where
  "a2b_loop [] quad_pos leftchar pads bin =
     (if quad_pos \<noteq> 0 then
        (if quad_pos = 1 then
           Inl (BinasciiError (''Invalid base64-encoded string: number of data characters (''
             @ dec_nat (length bin div 3 * 4 + 1)
             @ '') cannot be 1 more than a multiple of 4''))
         else Inl (BinasciiError ''Incorrect padding''))
      else Inr bin)"
| "a2b_loop (this_ch # rest) quad_pos leftchar pads bin =
     (if this_ch = BASE64_PAD then
        (if quad_pos \<ge> 2 \<and> quad_pos + (pads + 1) \<ge> 4 then Inr bin
         else a2b_loop rest quad_pos leftchar (if quad_pos \<ge> 2 then pads + 1 else pads) bin)
      else if table_a2b_base64 this_ch \<ge> 64 then a2b_loop rest quad_pos leftchar pads bin
      else if quad_pos = 0 then
        a2b_loop rest 1 (table_a2b_base64 this_ch) 0 bin
      else if quad_pos = 1 then
        a2b_loop rest 2 (table_a2b_base64 this_ch AND 0x0F) 0
          (bin @ [push_bit 2 leftchar OR drop_bit 4 (table_a2b_base64 this_ch)])
      else if quad_pos = 2 then
        a2b_loop rest 3 (table_a2b_base64 this_ch AND 0x03) 0
          (bin @ [push_bit 4 leftchar OR drop_bit 2 (table_a2b_base64 this_ch)])
      else
        a2b_loop rest 0 0 0 (bin @ [push_bit 6 leftchar OR table_a2b_base64 this_ch]))"

definition a2b_base64 :: "byte list \<Rightarrow> pyexc + byte list" where
  "a2b_base64 ascii_data = a2b_loop ascii_data 0 0 0 []"

section \<open>Text of built-in values\<close>

text \<open>\<^verbatim>\<open>repr\<close> of the modelled values, which is what \<^verbatim>\<open>str\<close> of a \<^verbatim>\<open>KeyError\<close> shows
  of the missing key.\<close>

definition hex_digit :: "nat \<Rightarrow> char" where
  "hex_digit n = ''0123456789abcdef'' ! (n mod 16)"

definition hex_escape :: "nat \<Rightarrow> string" where
  "hex_escape n = [CHR 0x5C, CHR ''x'', hex_digit (n div 16), hex_digit n]"

definition quote_char :: "string \<Rightarrow> char" where
  "quote_char s = (if CHR 0x27 \<in> set s \<and> CHR 0x22 \<notin> set s then CHR 0x22 else CHR 0x27)"

definition str_printable :: "nat \<Rightarrow> bool" where
  "str_printable n = ((32 \<le> n \<and> n < 127) \<or> (161 \<le> n \<and> n \<noteq> 173))"

definition escape_char :: "bool \<Rightarrow> char \<Rightarrow> char \<Rightarrow> string" where
  "escape_char is_bytes q c =
     (if c = q \<or> c = CHR 0x5C then [CHR 0x5C, c]
      else if c = CHR 0x09 then [CHR 0x5C, CHR ''t'']
      else if c = CHR 0x0A then [CHR 0x5C, CHR ''n'']
      else if c = CHR 0x0D then [CHR 0x5C, CHR ''r'']
      else if (if is_bytes then 32 \<le> (of_char c :: nat) \<and> (of_char c :: nat) < 127
               else str_printable (of_char c)) then [c]
      else hex_escape (of_char c))"

definition repr_str :: "string \<Rightarrow> string" where
  "repr_str s = quote_char s # concat (map (escape_char False (quote_char s)) s) @ [quote_char s]"

definition repr_bytes :: "byte list \<Rightarrow> string" where
  "repr_bytes bs =
     (let s = map (\<lambda>b. char_of (unat b)) bs
      in CHR ''b'' # quote_char s # concat (map (escape_char True (quote_char s)) s) @ [quote_char s])"

definition comma_join :: "string list \<Rightarrow> string" where
  "comma_join xs = (case xs of [] \<Rightarrow> [] | x # rest \<Rightarrow> x @ concat (map (\<lambda>y. '', '' @ y) rest))"

fun py_repr :: "pyval \<Rightarrow> string" where
  "py_repr PNone = ''None''"
| "py_repr (PBool b) = (if b then ''True'' else ''False'')"
| "py_repr (PInt i) = (if i < 0 then CHR ''-'' # dec_nat (nat (- i)) else dec_nat (nat i))"
| "py_repr (PStr s) = repr_str s"
| "py_repr (PBytes bs) = repr_bytes bs"
| "py_repr (PList vs) = ''['' @ comma_join (map py_repr vs) @ '']''"

fun type_name :: "pyval \<Rightarrow> string" where
  "type_name PNone = ''NoneType''"
| "type_name (PBool _) = ''bool''"
| "type_name (PInt _) = ''int''"
| "type_name (PStr _) = ''str''"
| "type_name (PBytes _) = ''bytes''"
| "type_name (PList _) = ''list''"

fun hashable :: "pyval \<Rightarrow> bool" where
  "hashable (PList _) = False"
| "hashable _ = True"

text \<open>\<^verbatim>\<open>str(error)\<close>, and the \<^verbatim>\<open>message\<close> attribute that the module's four exception
  classes set in their constructors (and pass on to \<^verbatim>\<open>Exception.__init__\<close>). Both succeed
  on every value of \<open>pyexc\<close>: an exception object whose \<^verbatim>\<open>__str__\<close> raises, or an instance
  of a subclass of the four classes that sets no \<^verbatim>\<open>message\<close>, is not among these values. In
  the code such an object makes the expression in its \<^verbatim>\<open>except\<close> clause raise, which leaves
  \<^verbatim>\<open>reply\<close> unbound just as an exception that no clause catches does.\<close>

fun message_attr :: "pyexc \<Rightarrow> string" where
  "message_attr UnrecognizedFileTypeError = ''File type not recognized''"
| "message_attr MissingPayloadError = ''Message has no payload''"
| "message_attr PayloadNotBase64Error = ''Message payload cannot be decoded from base64''"
| "message_attr CantEncodePayloadError = ''Cannot encode payload into base64''"
| "message_attr _ = []"

fun py_str :: "pyexc \<Rightarrow> string" where
  "py_str (KeyError t) = t"
| "py_str (BinasciiError t) = t"
| "py_str (ValueError t) = t"
| "py_str (TypeError t) = t"
| "py_str (UnboundLocalError t) = t"
| "py_str (OtherException t) = t"
| "py_str (NonException t) = t"
| "py_str e = message_attr e"

section \<open>base64.b64decode and base64.b64encode\<close>

definition is_ascii :: "string \<Rightarrow> bool" where
  "is_ascii s = list_all (\<lambda>c. (of_char c :: nat) < 128) s"

definition b64decode :: "pyval \<Rightarrow> pyexc + byte list" where
  "b64decode s =
     (case s of
        PStr t \<Rightarrow>
          if is_ascii t then a2b_base64 (map of_char t)
          else Inl (ValueError ''string argument should contain only ASCII characters'')
      | PBytes bs \<Rightarrow> a2b_base64 bs
      | _ \<Rightarrow> Inl (TypeError (''argument should be a bytes-like object or ASCII string, not ''
                 @ repr_str (type_name s))))"

definition b64encode :: "pyval \<Rightarrow> pyexc + byte list" where
  "b64encode s =
     (case s of
        PBytes bs \<Rightarrow> Inr (b2a_base64 bs)
      | _ \<Rightarrow> Inl (TypeError (''a bytes-like object is required, not '' @ repr_str (type_name s))))"

text \<open>\<^verbatim>\<open>bytes.decode("utf-8")\<close> on ASCII data, which is all that \<open>b2a_base64\<close> produces:
  each byte is the character of the same code.\<close>

definition decode_utf8 :: "byte list \<Rightarrow> string" where
  "decode_utf8 bs = map (\<lambda>b. char_of (unat b)) bs"

section \<open>Dictionaries, handlers and the object store\<close>

text \<open>
  A message or a reply is a dictionary with text keys, kept as an association list in
  insertion order. Dictionaries are mutable objects that the module updates in place and
  hands back, so they live in a store and are passed by reference. A \<open>world\<close> is that
  store (\<open>dicts\<close>, with \<open>next_ref\<close> the first unused reference) together with the record
  of the handler calls made so far (\<open>invoked\<close>: the registry key and the keyword
  arguments of each call).
\<close>

type_synonym pydict = "(string \<times> pyval) list"

type_synonym ref = nat

record world =
  dicts :: "ref \<Rightarrow> pydict"
  next_ref :: ref
  invoked :: "(string \<times> pydict) list"

definition dict_getitem :: "pydict \<Rightarrow> string \<Rightarrow> pyexc + pyval" where
  "dict_getitem d k = (case map_of d k of None \<Rightarrow> Inl (KeyError (repr_str k)) | Some v \<Rightarrow> Inr v)"

definition dict_setitem :: "pydict \<Rightarrow> string \<Rightarrow> pyval \<Rightarrow> pydict" where
  "dict_setitem d k v = AList.update k v d"

definition setitem :: "ref \<Rightarrow> string \<Rightarrow> pyval \<Rightarrow> world \<Rightarrow> world" where
  "setitem r k v w = w\<lparr>dicts := (dicts w)(r := dict_setitem (dicts w r) k v)\<rparr>"

definition new_dict :: "pydict \<Rightarrow> world \<Rightarrow> ref \<times> world" where
  "new_dict d w = (next_ref w, w\<lparr>dicts := (dicts w)(next_ref w := d), next_ref := Suc (next_ref w)\<rparr>)"

text \<open>
  A handler is a Python function \<^verbatim>\<open>def qualname(p1, ..., pn)\<close> or
  \<^verbatim>\<open>def qualname(p1, ..., pn, **kw)\<close>: its required parameters, whether it takes further
  keyword arguments, and what its body does with the arguments it is given: return a value
  or raise. The module calls it as \<^verbatim>\<open>f(**message)\<close>; \<open>call_kw\<close> is the interpreter's
  binding of the keyword arguments, which raises \<^verbatim>\<open>TypeError\<close> for a keyword the function
  does not take and for a parameter left without a value.
\<close>

record pyfunc =
  qualname :: string
  params :: "string list"
  var_kw :: bool
  body :: "pydict \<Rightarrow> pyexc + pyval"

fun format_missing :: "string list \<Rightarrow> string" where
  "format_missing [] = []"
| "format_missing [a] = repr_str a"
| "format_missing [a, b] = repr_str a @ '' and '' @ repr_str b"
| "format_missing [a, b, c] = repr_str a @ '', '' @ repr_str b @ '', and '' @ repr_str c"
| "format_missing (a # b # c # d # rest) = repr_str a @ '', '' @ format_missing (b # c # d # rest)"

definition call_kw :: "pyfunc \<Rightarrow> pydict \<Rightarrow> pyexc + pyval" where
  "call_kw f kwargs =
     (case (if var_kw f then None else find (\<lambda>k. k \<notin> set (params f)) (map fst kwargs)) of
        Some k \<Rightarrow>
          Inl (TypeError (qualname f @ ''() got an unexpected keyword argument '' @
                 [CHR 0x27] @ k @ [CHR 0x27]))
      | None \<Rightarrow>
          (let missing = filter (\<lambda>p. map_of kwargs p = None) (params f)
           in if missing \<noteq> [] then
                Inl (TypeError (qualname f @ ''() missing '' @ dec_nat (length missing) @
                       '' required positional argument'' @
                       (if length missing = 1 then [] else ''s'') @ '': '' @
                       format_missing missing))
              else body f kwargs))"

section \<open>The module: payload transcoding\<close>

fun is_binascii_Error :: "pyexc \<Rightarrow> bool" where
  "is_binascii_Error (BinasciiError _) = True"
| "is_binascii_Error _ = False"

text \<open>\<^verbatim>\<open>decode_payload(message)\<close>: reads \<^verbatim>\<open>message['payload']\<close>, decodes it, stores the
  bytes under the same key of the same dictionary and returns that dictionary. Only
  \<^verbatim>\<open>binascii.Error\<close> is turned into \<^verbatim>\<open>PayloadNotBase64Error\<close>; any other exception
  leaves the function as it is.\<close>

definition decode_payload :: "ref \<Rightarrow> world \<Rightarrow> pyexc + (ref \<times> world)" where
  "decode_payload message w =
     (case dict_getitem (dicts w message) ''payload'' of
        Inl e \<Rightarrow> Inl e
      | Inr p \<Rightarrow>
          (case b64decode p of
             Inl e \<Rightarrow> if is_binascii_Error e then Inl PayloadNotBase64Error else Inl e
           | Inr bs \<Rightarrow> Inr (message, setitem message ''payload'' (PBytes bs) w)))"

text \<open>\<^verbatim>\<open>encode_payload(message)\<close>: the same in the other direction, with
  \<^verbatim>\<open>CantEncodePayloadError\<close> for \<^verbatim>\<open>binascii.Error\<close>.\<close>

definition encode_payload :: "ref \<Rightarrow> world \<Rightarrow> pyexc + (ref \<times> world)" where
  "encode_payload message w =
     (case dict_getitem (dicts w message) ''payload'' of
        Inl e \<Rightarrow> Inl e
      | Inr p \<Rightarrow>
          (case b64encode p of
             Inl e \<Rightarrow> if is_binascii_Error e then Inl CantEncodePayloadError else Inl e
           | Inr bs \<Rightarrow> Inr (message, setitem message ''payload'' (PStr (decode_utf8 bs)) w)))"

section \<open>The module: MessageHandler\<close>

text \<open>The handler object holds one attribute, \<^verbatim>\<open>function_dictionary\<close>, a dictionary from
  type names to handlers; the model passes that dictionary where the code passes
  \<^verbatim>\<open>self\<close>.\<close>

type_synonym registry = "string \<rightharpoonup> pyfunc"

definition MessageHandler_init :: "registry option \<Rightarrow> registry" where
  "MessageHandler_init string_to_func =
     (case string_to_func of None \<Rightarrow> Map.empty | Some d \<Rightarrow> d)"

definition add_function :: "registry \<Rightarrow> string \<Rightarrow> pyfunc \<Rightarrow> registry" where
  "add_function function_dictionary file_type f = function_dictionary(file_type \<mapsto> f)"

text \<open>\<^verbatim>\<open>key in function_dictionary\<close> and \<^verbatim>\<open>function_dictionary[key]\<close> for a key of any
  type: a list cannot be hashed, and a value that is not text equals no type name.\<close>

definition registry_contains :: "registry \<Rightarrow> pyval \<Rightarrow> pyexc + bool" where
  "registry_contains function_dictionary key =
     (if \<not> hashable key then
        Inl (TypeError (''unhashable type: '' @ repr_str (type_name key)))
      else (case key of
              PStr t \<Rightarrow> Inr (function_dictionary t \<noteq> None)
            | _ \<Rightarrow> Inr False))"

definition registry_getitem :: "registry \<Rightarrow> pyval \<Rightarrow> pyexc + (string \<times> pyfunc)" where
  "registry_getitem function_dictionary key =
     (if \<not> hashable key then
        Inl (TypeError (''unhashable type: '' @ repr_str (type_name key)))
      else (case key of
              PStr t \<Rightarrow>
                (case function_dictionary t of
                   None \<Rightarrow> Inl (KeyError (py_repr key))
                 | Some f \<Rightarrow> Inr (t, f))
            | _ \<Rightarrow> Inl (KeyError (py_repr key))))"

definition validate_json :: "registry \<Rightarrow> ref \<Rightarrow> world \<Rightarrow> pyexc + unit" where
  "validate_json function_dictionary message_json w =
     (case dict_getitem (dicts w message_json) ''type'' of
        Inl e \<Rightarrow> Inl e
      | Inr t \<Rightarrow>
          (case registry_contains function_dictionary t of
             Inl e \<Rightarrow> Inl e
           | Inr present \<Rightarrow> if \<not> present then Inl UnrecognizedFileTypeError else Inr ()))"

text \<open>
  The body of the \<^verbatim>\<open>try\<close> statement of \<^verbatim>\<open>generate_reply\<close> (lines 103 to 107). It
  gives the exception that ended it, if any, the binding of the local variable
  \<^verbatim>\<open>reply\<close> at that point (\<open>None\<close> while unbound), and the world.
\<close>

definition try_body :: "registry \<Rightarrow> ref \<Rightarrow> world \<Rightarrow> pyexc option \<times> ref option \<times> world" where
  "try_body function_dictionary message w =
     (case validate_json function_dictionary message w of
        Inl e \<Rightarrow> (Some e, None, w)
      | Inr _ \<Rightarrow>
     (case decode_payload message w of
        Inl e \<Rightarrow> (Some e, None, w)
      | Inr (message1, w1) \<Rightarrow>
     (case dict_getitem (dicts w1 message1) ''type'' of
        Inl e \<Rightarrow> (Some e, None, w1)
      | Inr t \<Rightarrow>
     (case registry_getitem function_dictionary t of
        Inl e \<Rightarrow> (Some e, None, w1)
      | Inr (name, f) \<Rightarrow>
     (let w2 = w1\<lparr>invoked := invoked w1 @ [(name, dicts w1 message1)]\<rparr>
      in case call_kw f (dicts w1 message1) of
        Inl e \<Rightarrow> (Some e, None, w2)
      | Inr reply_payload \<Rightarrow>
     (let (reply, w3) = new_dict [(''status'', PStr ''ok''), (''payload'', reply_payload)] w2
      in case encode_payload reply w3 of
        Inl e \<Rightarrow> (Some e, Some reply, w3)
      | Inr (reply1, w4) \<Rightarrow> (None, Some reply1, w4)))))))"

fun is_module_error :: "pyexc \<Rightarrow> bool" where
  "is_module_error UnrecognizedFileTypeError = True"
| "is_module_error MissingPayloadError = True"
| "is_module_error PayloadNotBase64Error = True"
| "is_module_error CantEncodePayloadError = True"
| "is_module_error _ = False"

fun is_KeyError :: "pyexc \<Rightarrow> bool" where
  "is_KeyError (KeyError _) = True"
| "is_KeyError _ = False"

fun is_Exception :: "pyexc \<Rightarrow> bool" where
  "is_Exception (NonException _) = False"
| "is_Exception _ = True"

text \<open>
  \<^verbatim>\<open>generate_reply(message)\<close>: the \<^verbatim>\<open>try\<close> body, then the first \<^verbatim>\<open>except\<close> clause
  that matches the exception, each binding \<^verbatim>\<open>reply\<close> to a new error dictionary, then
  \<^verbatim>\<open>finally: return reply\<close>. The \<^verbatim>\<open>return\<close> in the \<^verbatim>\<open>finally\<close> clause discards an
  exception that no clause caught; reading \<^verbatim>\<open>reply\<close> while it is unbound raises
  \<^verbatim>\<open>UnboundLocalError\<close>, which is then what the caller gets.
\<close>

definition generate_reply :: "registry \<Rightarrow> ref \<Rightarrow> world \<Rightarrow> (pyexc + ref) \<times> world" where
  "generate_reply function_dictionary message w =
     (let (exc, reply, w1) = try_body function_dictionary message w;
          (reply2, w2) =
            (case exc of
               None \<Rightarrow> (reply, w1)
             | Some error \<Rightarrow>
                 if is_module_error error then
                   (let (r, w') = new_dict [(''status'', PStr ''error''),
                                            (''payload'', PStr (message_attr error))] w1
                    in (Some r, w'))
                 else if is_KeyError error then
                   (let (r, w') = new_dict [(''status'', PStr ''error''),
                        (''payload'', PStr (''JSON object missing required field'' @ py_str error))] w1
                    in (Some r, w'))
                 else if is_Exception error then
                   (let (r, w') = new_dict [(''status'', PStr ''error''),
                        (''payload'', PStr (''Server error: '' @ py_str error))] w1
                    in (Some r, w'))
                 else (reply, w1))
      in case reply2 of
           None \<Rightarrow>
             (Inl (UnboundLocalError
                ''cannot access local variable 'reply' where it is not associated with a value''), w2)
         | Some r \<Rightarrow> (Inr r, w2))"

text \<open>What the caller of \<^verbatim>\<open>generate_reply\<close> sees: the contents of the dictionary
  returned, or the exception raised.\<close>

definition reply_of :: "registry \<Rightarrow> ref \<Rightarrow> world \<Rightarrow> pyexc + pydict" where
  "reply_of function_dictionary message w =
     (case generate_reply function_dictionary message w of
        (Inl e, w') \<Rightarrow> Inl e
      | (Inr r, w') \<Rightarrow> Inr (dicts w' r))"

text \<open>The handler calls that one \<^verbatim>\<open>generate_reply\<close> makes.\<close>

definition calls_of :: "registry \<Rightarrow> ref \<Rightarrow> world \<Rightarrow> (string \<times> pydict) list" where
  "calls_of function_dictionary message w =
     drop (length (invoked w)) (invoked (snd (generate_reply function_dictionary message w)))"

text \<open>A world that holds the one dictionary \<open>d\<close>, at reference 0.\<close>

definition world_of :: "pydict \<Rightarrow> world" where
  "world_of d = \<lparr>dicts = (\<lambda>_. [])(0 := d), next_ref = 1, invoked = []\<rparr>"

section \<open>Example handlers and alphabet predicates\<close>

text \<open>The handlers used for the concrete runs below:
  \<^verbatim>\<open>def echo(type, payload): return payload\<close>,
  \<^verbatim>\<open>def h(type, payload, name): return payload\<close>,
  \<^verbatim>\<open>def lookup(**kw): return kw['name']\<close>,
  \<^verbatim>\<open>def text(**kw): return 'hi'\<close>,
  \<^verbatim>\<open>def boom(**kw): raise RuntimeError('boom')\<close>,
  \<^verbatim>\<open>def stop(**kw): raise SystemExit('stop')\<close> and
  \<^verbatim>\<open>def ok(**kw): return b'ok'\<close>.\<close>

definition echo :: pyfunc where
  "echo = \<lparr>qualname = ''echo'', params = [''type'', ''payload''], var_kw = False,
            body = (\<lambda>kw. dict_getitem kw ''payload'')\<rparr>"

definition needs_name :: pyfunc where
  "needs_name = \<lparr>qualname = ''h'', params = [''type'', ''payload'', ''name''], var_kw = False,
                  body = (\<lambda>kw. dict_getitem kw ''payload'')\<rparr>"

definition lookup_name :: pyfunc where
  "lookup_name = \<lparr>qualname = ''lookup'', params = [], var_kw = True,
                   body = (\<lambda>kw. dict_getitem kw ''name'')\<rparr>"

definition returns_text :: pyfunc where
  "returns_text = \<lparr>qualname = ''text'', params = [], var_kw = True,
                    body = (\<lambda>kw. Inr (PStr ''hi''))\<rparr>"

definition boom :: pyfunc where
  "boom = \<lparr>qualname = ''boom'', params = [], var_kw = True,
            body = (\<lambda>kw. Inl (OtherException ''boom''))\<rparr>"

definition stop :: pyfunc where
  "stop = \<lparr>qualname = ''stop'', params = [], var_kw = True,
            body = (\<lambda>kw. Inl (NonException ''stop''))\<rparr>"

definition returns_ok :: pyfunc where
  "returns_ok = \<lparr>qualname = ''ok'', params = [], var_kw = True,
                  body = (\<lambda>kw. Inr (PBytes (map of_char ''ok'')))\<rparr>"

definition example_registry :: registry where
  "example_registry =
     add_function (add_function (add_function (add_function (add_function
       (MessageHandler_init None) ''echo'' echo) ''h'' needs_name) ''lookup'' lookup_name)
       ''text'' returns_text) ''boom'' boom"

text \<open>A character of the base64 alphabet (\<open>A-Z a-z 0-9 + /\<close>), and a character of a
  base64 text, which may also be the padding character.\<close>

definition in_alphabet :: "char \<Rightarrow> bool" where
  "in_alphabet c = (c \<noteq> CHR ''='' \<and> table_a2b_base64 (of_char c) < 64)"

definition base64_char :: "char \<Rightarrow> bool" where
  "base64_char c = (in_alphabet c \<or> c = CHR ''='')"

section \<open>Properties of the codec and of the pipeline stages\<close>

subsection \<open>The codec\<close>

lemma table_inverse_nat:
  assumes "n < 64"
  shows "table_a2b_base64 (of_char (table_b2a_base64 ! n)) = of_nat n
       \<and> (of_char (table_b2a_base64 ! n) :: byte) \<noteq> BASE64_PAD
       \<and> (of_char (table_b2a_base64 ! n) :: byte) < 128"
proof -
  have "list_all (\<lambda>n. table_a2b_base64 (of_char (table_b2a_base64 ! n)) = of_nat n
       \<and> (of_char (table_b2a_base64 ! n) :: byte) \<noteq> BASE64_PAD
       \<and> (of_char (table_b2a_base64 ! n) :: byte) < 128) [0..<64]"
    by code_simp
  then show ?thesis using assms by (simp add: list_all_iff)
qed

lemma unat_mask6: "unat (v AND 0x3F :: byte) < 64"
proof -
  have "unat (v AND 0x3F) \<le> unat (0x3F :: byte)"
    by (rule word_and_le1 [THEN word_le_nat_alt [THEN iffD1]])
  then show ?thesis by simp
qed

lemma a2b_b2a_char: "table_a2b_base64 (b2a_char v) = v AND 0x3F"
  and b2a_char_not_pad: "b2a_char v \<noteq> BASE64_PAD"
  and b2a_char_ascii: "b2a_char v < 128"
  using table_inverse_nat [OF unat_mask6 [of v]] by (simp_all add: b2a_char_def)

lemma mask6_less: "\<not> 64 \<le> (v AND 0x3F :: byte)"
  using unat_mask6 [of v] by (simp add: word_le_nat_alt)

lemma byte_eqI:
  fixes a b :: byte
  assumes "bit a 0 = bit b 0" "bit a 1 = bit b 1" "bit a 2 = bit b 2" "bit a 3 = bit b 3"
    "bit a 4 = bit b 4" "bit a 5 = bit b 5" "bit a 6 = bit b 6" "bit a 7 = bit b 7"
  shows "a = b"
proof (rule bit_word_eqI)
  fix n assume "n < LENGTH(8)"
  then have "n = 0 \<or> n = 1 \<or> n = 2 \<or> n = 3 \<or> n = 4 \<or> n = 5 \<or> n = 6 \<or> n = 7"
    by simp arith
  with assms show "bit a n = bit b n" by auto
qed

lemma a2b_loop_quad:
  assumes "c1 \<noteq> BASE64_PAD" "c2 \<noteq> BASE64_PAD" "c3 \<noteq> BASE64_PAD" "c4 \<noteq> BASE64_PAD"
    and "\<not> 64 \<le> table_a2b_base64 c1" "\<not> 64 \<le> table_a2b_base64 c2"
    and "\<not> 64 \<le> table_a2b_base64 c3" "\<not> 64 \<le> table_a2b_base64 c4"
  shows "a2b_loop (c1 # c2 # c3 # c4 # rest) 0 l p bin =
         a2b_loop rest 0 0 0 (bin @
           [push_bit 2 (table_a2b_base64 c1) OR drop_bit 4 (table_a2b_base64 c2),
            push_bit 4 (table_a2b_base64 c2 AND 0x0F) OR drop_bit 2 (table_a2b_base64 c3),
            push_bit 6 (table_a2b_base64 c3 AND 0x03) OR table_a2b_base64 c4])"
  using assms by simp

lemma a2b_loop_pad2:
  assumes "c1 \<noteq> BASE64_PAD" "c2 \<noteq> BASE64_PAD"
    and "\<not> 64 \<le> table_a2b_base64 c1" "\<not> 64 \<le> table_a2b_base64 c2"
  shows "a2b_loop [c1, c2, BASE64_PAD, BASE64_PAD] 0 l p bin =
         Inr (bin @ [push_bit 2 (table_a2b_base64 c1) OR drop_bit 4 (table_a2b_base64 c2)])"
  using assms by simp

lemma a2b_loop_pad1:
  assumes "c1 \<noteq> BASE64_PAD" "c2 \<noteq> BASE64_PAD" "c3 \<noteq> BASE64_PAD"
    and "\<not> 64 \<le> table_a2b_base64 c1" "\<not> 64 \<le> table_a2b_base64 c2"
    and "\<not> 64 \<le> table_a2b_base64 c3"
  shows "a2b_loop [c1, c2, c3, BASE64_PAD] 0 l p bin =
         Inr (bin @
           [push_bit 2 (table_a2b_base64 c1) OR drop_bit 4 (table_a2b_base64 c2),
            push_bit 4 (table_a2b_base64 c2 AND 0x0F) OR drop_bit 2 (table_a2b_base64 c3)])"
  using assms by simp

lemma regroup1:
  "push_bit 2 (drop_bit 2 a AND 0x3F) OR drop_bit 4 ((push_bit 4 (a AND 3) OR drop_bit 4 b) AND 0x3F) = (a::byte)"
  by (rule byte_eqI; simp add: bit_simps)

lemma regroup1_last:
  "push_bit 2 (drop_bit 2 a AND 0x3F) OR drop_bit 4 (push_bit 4 (a AND 3) AND 0x3F) = (a::byte)"
  by (rule byte_eqI; simp add: bit_simps)

lemma regroup2:
  "push_bit 4 (((push_bit 4 (a AND 3) OR drop_bit 4 b) AND 0x3F) AND 0x0F)
     OR drop_bit 2 ((push_bit 2 (b AND 0xF) OR drop_bit 6 c) AND 0x3F) = (b::byte)"
  by (rule byte_eqI; simp add: bit_simps)

lemma regroup2_last:
  "push_bit 4 (((push_bit 4 (a AND 3) OR drop_bit 4 b) AND 0x3F) AND 0x0F)
     OR drop_bit 2 (push_bit 2 (b AND 0xF) AND 0x3F) = (b::byte)"
  by (rule byte_eqI; simp add: bit_simps)

lemma regroup3:
  "push_bit 6 (((push_bit 2 (b AND 0xF) OR drop_bit 6 c) AND 0x3F) AND 3) OR ((c AND 0x3F) AND 0x3F) = (c::byte)"
  by (rule byte_eqI; simp add: bit_simps)

lemma a2b_loop_b2a:
  "a2b_loop (b2a_base64 P) 0 0 0 bin = Inr (bin @ P)"
proof (induction P arbitrary: bin rule: b2a_base64.induct)
  case 1
  show ?case by simp
next
  case (2 a)
  have "a2b_loop (b2a_base64 [a]) 0 0 0 bin =
        Inr (bin @ [push_bit 2 (table_a2b_base64 (b2a_char (drop_bit 2 a)))
                    OR drop_bit 4 (table_a2b_base64 (b2a_char (push_bit 4 (a AND 3))))])"
    unfolding b2a_base64.simps
    by (rule a2b_loop_pad2) (simp_all only: a2b_b2a_char b2a_char_not_pad mask6_less not_False_eq_True)
  then show ?case
    by (simp only: a2b_b2a_char regroup1_last)
next
  case (3 a b)
  have "a2b_loop (b2a_base64 [a, b]) 0 0 0 bin =
        Inr (bin @ [push_bit 2 (table_a2b_base64 (b2a_char (drop_bit 2 a)))
                    OR drop_bit 4 (table_a2b_base64 (b2a_char (push_bit 4 (a AND 3) OR drop_bit 4 b))),
                    push_bit 4 (table_a2b_base64 (b2a_char (push_bit 4 (a AND 3) OR drop_bit 4 b)) AND 0x0F)
                    OR drop_bit 2 (table_a2b_base64 (b2a_char (push_bit 2 (b AND 0xF))))])"
    unfolding b2a_base64.simps
    by (rule a2b_loop_pad1) (simp_all only: a2b_b2a_char b2a_char_not_pad mask6_less not_False_eq_True)
  then show ?case
    by (simp only: a2b_b2a_char regroup1 regroup2_last)
next
  case (4 a b c rest)
  have "a2b_loop (b2a_base64 (a # b # c # rest)) 0 0 0 bin =
        a2b_loop (b2a_base64 rest) 0 0 0 (bin @
          [push_bit 2 (table_a2b_base64 (b2a_char (drop_bit 2 a)))
             OR drop_bit 4 (table_a2b_base64 (b2a_char (push_bit 4 (a AND 3) OR drop_bit 4 b))),
           push_bit 4 (table_a2b_base64 (b2a_char (push_bit 4 (a AND 3) OR drop_bit 4 b)) AND 0x0F)
             OR drop_bit 2 (table_a2b_base64 (b2a_char (push_bit 2 (b AND 0xF) OR drop_bit 6 c))),
           push_bit 6 (table_a2b_base64 (b2a_char (push_bit 2 (b AND 0xF) OR drop_bit 6 c)) AND 0x03)
             OR table_a2b_base64 (b2a_char (c AND 0x3F))])"
    unfolding b2a_base64.simps append.simps
    by (rule a2b_loop_quad) (simp_all only: a2b_b2a_char b2a_char_not_pad mask6_less not_False_eq_True)
  also have "\<dots> = a2b_loop (b2a_base64 rest) 0 0 0 (bin @ [a, b, c])"
    by (simp only: a2b_b2a_char regroup1 regroup2 regroup3)
  also have "\<dots> = Inr ((bin @ [a, b, c]) @ rest)"
    by (rule "4.IH")
  finally show ?case by simp
qed

lemma a2b_b2a: "a2b_base64 (b2a_base64 P) = Inr P"
  by (simp add: a2b_base64_def a2b_loop_b2a)

lemma b2a_base64_ascii: "list_all (\<lambda>b. b < 128) (b2a_base64 P)"
  by (induction P rule: b2a_base64.induct) (simp_all add: b2a_char_ascii BASE64_PAD_def)

lemma of_char_decode_utf8: "map of_char (decode_utf8 bs) = bs"
proof -
  have "(of_char (char_of (unat b)) :: byte) = b" for b :: byte
  proof -
    have "(of_char (char_of (unat b)) :: byte) = of_nat (of_char (char_of (unat b)))"
      by (rule of_nat_of_char [symmetric])
    also have "\<dots> = of_nat (unat b mod 256)" by (simp only: of_char_of)
    also have "\<dots> = b"
    proof -
      have "unat b < 256" using unsigned_less [of b, where 'a = nat] by simp
      then show ?thesis by simp
    qed
    finally show ?thesis .
  qed
  then show ?thesis by (simp add: decode_utf8_def map_idI)
qed

lemma is_ascii_decode_utf8: "list_all (\<lambda>b. b < 128) bs \<Longrightarrow> is_ascii (decode_utf8 bs)"
proof -
  assume a: "list_all (\<lambda>b. b < 128) bs"
  have "(of_char (char_of (unat b)) :: nat) < 128" if "b < 128" for b :: byte
  proof -
    from that have "unat b < 128" by (simp add: word_less_nat_alt)
    then show ?thesis by simp
  qed
  with a show ?thesis by (simp add: is_ascii_def decode_utf8_def list_all_iff)
qed

lemma b64decode_b64encode:
  "b64decode (PStr (decode_utf8 (b2a_base64 P))) = Inr P"
  by (simp add: b64decode_def is_ascii_decode_utf8 b2a_base64_ascii of_char_decode_utf8 a2b_b2a)

subsection \<open>Dictionaries and the store\<close>

lemma dict_getitem_Inr: "dict_getitem d k = Inr v \<longleftrightarrow> map_of d k = Some v"
  by (simp add: dict_getitem_def split: option.splits)

lemma dict_getitem_Inl:
  "dict_getitem d k = Inl e \<longleftrightarrow> map_of d k = None \<and> e = KeyError (repr_str k)"
  by (auto simp: dict_getitem_def split: option.splits)

lemma dict_getitem_Some: "map_of d k = Some v \<Longrightarrow> dict_getitem d k = Inr v"
  and dict_getitem_None: "map_of d k = None \<Longrightarrow> dict_getitem d k = Inl (KeyError (repr_str k))"
  by (simp_all add: dict_getitem_def)

lemma map_of_dict_setitem [simp]: "map_of (dict_setitem d k v) = (map_of d)(k \<mapsto> v)"
  by (simp add: dict_setitem_def update_conv')

lemma keys_dict_setitem:
  "map_of d k = Some u \<Longrightarrow> map fst (dict_setitem d k v) = map fst d"
  by (auto simp: dict_setitem_def update_keys dest: map_of_SomeD intro: rev_image_eqI)

lemma dicts_setitem [simp]:
  "dicts (setitem r k v w) = (dicts w)(r := dict_setitem (dicts w r) k v)"
  and next_ref_setitem [simp]: "next_ref (setitem r k v w) = next_ref w"
  and invoked_setitem [simp]: "invoked (setitem r k v w) = invoked w"
  by (simp_all add: setitem_def)

lemma setitem_overwrite: "setitem r k v (setitem r k v' w) = setitem r k v w"
  by (simp add: setitem_def dict_setitem_def)

subsection \<open>Transcoding\<close>

lemma a2b_loop_error:
  "a2b_loop cs q l p bin = Inl e \<Longrightarrow> is_binascii_Error e"
  by (induction cs q l p bin rule: a2b_loop.induct) (auto split: if_splits)

lemma b64decode_error:
  "b64decode v = Inl e \<Longrightarrow> is_Exception e \<and> \<not> is_module_error e \<and> \<not> is_KeyError e \<and> e \<noteq> MissingPayloadError"
  by (cases v) (auto simp: b64decode_def a2b_base64_def split: if_splits dest!: a2b_loop_error elim: is_binascii_Error.elims)

lemma b64encode_error:
  "b64encode v = Inl e \<Longrightarrow> \<exists>t. e = TypeError t"
  by (cases v) (auto simp: b64encode_def)

lemma decode_payload_Inr:
  "decode_payload m w = Inr (m', w') \<longleftrightarrow>
     (\<exists>p bs. map_of (dicts w m) ''payload'' = Some p \<and> b64decode p = Inr bs \<and>
        m' = m \<and> w' = setitem m ''payload'' (PBytes bs) w)"
  by (auto simp: decode_payload_def dict_getitem_Inr dict_getitem_Inl split: sum.splits)

lemma encode_payload_Inr:
  "encode_payload m w = Inr (m', w') \<longleftrightarrow>
     (\<exists>bs. map_of (dicts w m) ''payload'' = Some (PBytes bs) \<and>
        m' = m \<and> w' = setitem m ''payload'' (PStr (decode_utf8 (b2a_base64 bs))) w)"
  by (auto simp: encode_payload_def b64encode_def dict_getitem_Inr dict_getitem_Inl split: sum.splits pyval.splits)

lemma decode_payload_Inl:
  "decode_payload m w = Inl e \<Longrightarrow> is_Exception e \<and> e \<noteq> MissingPayloadError"
  by (auto simp: decode_payload_def dict_getitem_Inl split: sum.splits if_splits dest: b64decode_error)

lemma encode_payload_Inl:
  "encode_payload m w = Inl e \<Longrightarrow>
     (\<exists>t. e = TypeError t) \<or> e = KeyError (repr_str ''payload'')"
  by (auto simp: encode_payload_def dict_getitem_Inl split: sum.splits if_splits dest: b64encode_error)


subsection \<open>The stages of the pipeline\<close>

lemma registry_contains_error:
  "registry_contains reg v = Inl e \<Longrightarrow> \<exists>t. e = TypeError t"
  by (cases v) (auto simp: registry_contains_def)

lemma registry_contains_True:
  "registry_contains reg v = Inr True \<longleftrightarrow> (\<exists>t f. v = PStr t \<and> reg t = Some f)"
  by (cases v) (auto simp: registry_contains_def)

lemma registry_getitem_Inr:
  "registry_getitem reg v = Inr (name, f) \<longleftrightarrow> v = PStr name \<and> reg name = Some f"
  by (cases v) (auto simp: registry_getitem_def split: option.splits)

lemma registry_getitem_Inl:
  "registry_getitem reg v = Inl e \<Longrightarrow> is_Exception e"
  by (cases v) (auto simp: registry_getitem_def split: option.splits)

lemma validate_json_Inr:
  "validate_json reg m w = Inr u \<longleftrightarrow>
     (\<exists>t f. map_of (dicts w m) ''type'' = Some (PStr t) \<and> reg t = Some f)"
proof (cases "map_of (dicts w m) ''type''")
  case None
  then show ?thesis by (simp add: validate_json_def dict_getitem_def)
next
  case (Some v)
  show ?thesis
  proof (cases "registry_contains reg v")
    case (Inl e)
    then have "\<not> (\<exists>t f. v = PStr t \<and> reg t = Some f)"
      using registry_contains_True [of reg v] by simp
    with Some Inl show ?thesis by (simp add: validate_json_def dict_getitem_def)
  next
    case (Inr b)
    with Some registry_contains_True [of reg v] show ?thesis
      by (cases b) (simp_all add: validate_json_def dict_getitem_def)
  qed
qed

lemma validate_json_Inl:
  "validate_json reg m w = Inl e \<Longrightarrow> is_Exception e \<and> e \<noteq> MissingPayloadError"
  by (auto simp: validate_json_def dict_getitem_Inl split: sum.splits if_splits
        dest: registry_contains_error)

lemma call_kw_Inl:
  "call_kw f kw = Inl e \<Longrightarrow> \<not> is_Exception e \<Longrightarrow> body f kw = Inl e"
  by (auto simp: call_kw_def Let_def split: option.splits if_splits)

subsection \<open>The try body and the except clauses\<close>

lemma try_body_validate:
  "validate_json reg m w = Inl e \<Longrightarrow> try_body reg m w = (Some e, None, w)"
  by (simp add: try_body_def)

lemma try_body_decode:
  "validate_json reg m w = Inr u \<Longrightarrow> decode_payload m w = Inl e \<Longrightarrow>
   try_body reg m w = (Some e, None, w)"
  by (simp add: try_body_def)

lemma try_body_stages:
  assumes "validate_json reg m w = Inr u" and "decode_payload m w = Inr (m1, w1)"
    and "dict_getitem (dicts w1 m1) ''type'' = Inr tv" and "registry_getitem reg tv = Inr (name, f)"
  shows "try_body reg m w =
     (let w2 = w1\<lparr>invoked := invoked w1 @ [(name, dicts w1 m1)]\<rparr>
      in case call_kw f (dicts w1 m1) of
           Inl e \<Rightarrow> (Some e, None, w2)
         | Inr reply_payload \<Rightarrow>
             (let (reply, w3) = new_dict [(''status'', PStr ''ok''), (''payload'', reply_payload)] w2
              in case encode_payload reply w3 of
                   Inl e \<Rightarrow> (Some e, Some reply, w3)
                 | Inr (reply1, w4) \<Rightarrow> (None, Some reply1, w4)))"
  using assms by (simp add: try_body_def)

lemma encode_new_reply:
  assumes "new_dict [(''status'', PStr ''ok''), (''payload'', v)] w = (r, w')"
  shows "encode_payload r w' =
     (case b64encode v of
        Inl e \<Rightarrow> Inl e
      | Inr bs \<Rightarrow> Inr (r, setitem r ''payload'' (PStr (decode_utf8 bs)) w'))"
proof -
  have "dict_getitem (dicts w' r) ''payload'' = Inr v"
    using assms by (auto simp: new_dict_def dict_getitem_def)
  moreover have "\<not> is_binascii_Error e" if "b64encode v = Inl e" for e
    using b64encode_error [OF that] by auto
  ultimately show ?thesis
    by (simp add: encode_payload_def split: sum.splits)
qed

lemma try_body_call:
  assumes "map_of (dicts w m) ''type'' = Some (PStr t)" and "reg t = Some f"
    and "map_of (dicts w m) ''payload'' = Some p" and "b64decode p = Inr bs"
    and "w1 = setitem m ''payload'' (PBytes bs) w"
    and "w2 = w1\<lparr>invoked := invoked w1 @ [(t, dicts w1 m)]\<rparr>"
  shows "try_body reg m w =
     (case call_kw f (dicts w1 m) of
        Inl e \<Rightarrow> (Some e, None, w2)
      | Inr v \<Rightarrow>
          (case b64encode v of
             Inl e \<Rightarrow> (Some e, Some (next_ref w2),
                        snd (new_dict [(''status'', PStr ''ok''), (''payload'', v)] w2))
           | Inr out \<Rightarrow> (None, Some (next_ref w2),
               setitem (next_ref w2) ''payload'' (PStr (decode_utf8 out))
                 (snd (new_dict [(''status'', PStr ''ok''), (''payload'', v)] w2)))))"
proof -
  have v: "validate_json reg m w = Inr ()"
    using assms(1,2) by (simp add: validate_json_Inr)
  have d: "decode_payload m w = Inr (m, w1)"
    using assms(3,4,5) by (simp add: decode_payload_Inr)
  have t: "dict_getitem (dicts w1 m) ''type'' = Inr (PStr t)"
    using assms(1,5) by (simp add: dict_getitem_Some)
  have g: "registry_getitem reg (PStr t) = Inr (t, f)"
    using assms(2) by (simp add: registry_getitem_Inr)
  have s: "try_body reg m w =
     (case call_kw f (dicts w1 m) of
           Inl e \<Rightarrow> (Some e, None, w2)
         | Inr reply_payload \<Rightarrow>
             (let (reply, w3) = new_dict [(''status'', PStr ''ok''), (''payload'', reply_payload)] w2
              in case encode_payload reply w3 of
                   Inl e \<Rightarrow> (Some e, Some reply, w3)
                 | Inr (reply1, w4) \<Rightarrow> (None, Some reply1, w4)))"
    unfolding try_body_stages [OF v d t g] assms(6) Let_def ..
  show ?thesis
  proof (cases "call_kw f (dicts w1 m)")
    case (Inl e)
    with s show ?thesis by simp
  next
    case (Inr v)
    obtain r w3 where n: "new_dict [(''status'', PStr ''ok''), (''payload'', v)] w2 = (r, w3)"
      by (cases "new_dict [(''status'', PStr ''ok''), (''payload'', v)] w2")
    have r: "r = next_ref w2" and w3: "w3 = snd (new_dict [(''status'', PStr ''ok''), (''payload'', v)] w2)"
      using n by (auto simp: new_dict_def)
    show ?thesis
      unfolding s Inr sum.case n prod.case Let_def encode_new_reply [OF n]
      by (simp add: r w3 split: sum.splits)
  qed
qed

subsection \<open>From the try body to the reply\<close>

lemma reply_of_error:
  assumes "try_body reg m w = (Some e, r, w1)" and "is_Exception e"
  shows "reply_of reg m w = Inr [(''status'', PStr ''error''), (''payload'', PStr
           (if is_module_error e then message_attr e
            else if is_KeyError e then ''JSON object missing required field'' @ py_str e
            else ''Server error: '' @ py_str e))]"
  using assms by (simp add: reply_of_def generate_reply_def new_dict_def)

lemma reply_of_ok:
  assumes "try_body reg m w = (None, Some ref, w1)"
  shows "reply_of reg m w = Inr (dicts w1 ref)"
  using assms by (simp add: reply_of_def generate_reply_def)

lemma reply_of_uncaught:
  assumes "try_body reg m w = (Some e, None, w1)" and "\<not> is_Exception e"
  shows "reply_of reg m w = Inl (UnboundLocalError
           ''cannot access local variable 'reply' where it is not associated with a value'')"
proof -
  from assms(2) have "\<not> is_module_error e" "\<not> is_KeyError e" by (cases e; simp)+
  with assms show ?thesis by (simp add: reply_of_def generate_reply_def)
qed

lemma invoked_generate_reply:
  assumes "try_body reg m w = (exc, r, w1)"
  shows "invoked (snd (generate_reply reg m w)) = invoked w1"
  using assms
  by (cases exc; cases r) (simp_all add: generate_reply_def new_dict_def)

lemma reply_of_call:
  assumes "map_of (dicts w m) ''type'' = Some (PStr t)" and "reg t = Some f"
    and "map_of (dicts w m) ''payload'' = Some p" and "b64decode p = Inr bs"
  shows "reply_of reg m w =
     (case call_kw f (dict_setitem (dicts w m) ''payload'' (PBytes bs)) of
        Inl e \<Rightarrow>
          if is_Exception e then
            Inr [(''status'', PStr ''error''), (''payload'', PStr
              (if is_module_error e then message_attr e
               else if is_KeyError e then ''JSON object missing required field'' @ py_str e
               else ''Server error: '' @ py_str e))]
          else Inl (UnboundLocalError
            ''cannot access local variable 'reply' where it is not associated with a value'')
      | Inr v \<Rightarrow>
          (case b64encode v of
             Inl e \<Rightarrow> Inr [(''status'', PStr ''error''),
                          (''payload'', PStr (''Server error: '' @ py_str e))]
           | Inr out \<Rightarrow> Inr [(''status'', PStr ''ok''), (''payload'', PStr (decode_utf8 out))]))"
proof -
  define w1 where "w1 = setitem m ''payload'' (PBytes bs) w"
  define w2 where "w2 = w1\<lparr>invoked := invoked w1 @ [(t, dicts w1 m)]\<rparr>"
  have kw: "dicts w1 m = dict_setitem (dicts w m) ''payload'' (PBytes bs)"
    by (simp add: w1_def)
  note tb = try_body_call [where reg = reg and t = t, OF assms w1_def w2_def, unfolded kw]
  show ?thesis
  proof (cases "call_kw f (dict_setitem (dicts w m) ''payload'' (PBytes bs))")
    case (Inl e)
    with tb have t: "try_body reg m w = (Some e, None, w2)" by simp
    show ?thesis
      using reply_of_error [OF t] reply_of_uncaught [OF t] Inl by simp
  next
    case (Inr v)
    show ?thesis
    proof (cases "b64encode v")
      case (Inl e)
      with tb Inr have t: "try_body reg m w = (Some e, Some (next_ref w2),
          snd (new_dict [(''status'', PStr ''ok''), (''payload'', v)] w2))" by simp
      from Inl obtain x where "e = TypeError x" using b64encode_error by blast
      then show ?thesis
        using reply_of_error [OF t] Inl Inr by simp
    next
      case (Inr out)
      with tb \<open>call_kw f _ = Inr v\<close> have t: "try_body reg m w = (None, Some (next_ref w2),
          setitem (next_ref w2) ''payload'' (PStr (decode_utf8 out))
            (snd (new_dict [(''status'', PStr ''ok''), (''payload'', v)] w2)))" by simp
      show ?thesis
        using reply_of_ok [OF t] Inr \<open>call_kw f _ = Inr v\<close>
        by (simp add: new_dict_def dict_setitem_def)
    qed
  qed
qed

lemma calls_of_call:
  assumes "map_of (dicts w m) ''type'' = Some (PStr t)" and "reg t = Some f"
    and "map_of (dicts w m) ''payload'' = Some p" and "b64decode p = Inr bs"
  shows "calls_of reg m w = [(t, dict_setitem (dicts w m) ''payload'' (PBytes bs))]"
proof -
  define w1 where "w1 = setitem m ''payload'' (PBytes bs) w"
  define w2 where "w2 = w1\<lparr>invoked := invoked w1 @ [(t, dicts w1 m)]\<rparr>"
  obtain exc r w3 where t: "try_body reg m w = (exc, r, w3)"
    by (cases "try_body reg m w")
  have "invoked w3 = invoked w2"
    using t unfolding try_body_call [where reg = reg and t = t, OF assms w1_def w2_def]
    by (auto simp: new_dict_def split: sum.splits)
  then show ?thesis
    using invoked_generate_reply [OF t] by (simp add: calls_of_def w2_def w1_def)
qed

lemma reply_of_rejected:
  assumes "validate_json reg m w = Inl e \<or>
           (validate_json reg m w = Inr () \<and> decode_payload m w = Inl e)"
  shows "try_body reg m w = (Some e, None, w)" and "calls_of reg m w = []"
proof -
  show t: "try_body reg m w = (Some e, None, w)"
    using assms by (auto simp: try_body_validate try_body_decode)
  show "calls_of reg m w = []"
    using invoked_generate_reply [OF t] by (simp add: calls_of_def)
qed

lemma encode_payload_not_CantEncode: "encode_payload message w \<noteq> Inl CantEncodePayloadError"
  using encode_payload_Inl [of message w CantEncodePayloadError] by auto

lemma call_kw_declared_missing:
  assumes "k \<in> set (params f)" and "map_of kwargs k = None"
  shows "\<exists>msg. call_kw f kwargs = Inl (TypeError (qualname f @ ''() '' @ msg))"
proof (cases "if var_kw f then None else find (\<lambda>k. k \<notin> set (params f)) (map fst kwargs)")
  case (Some k')
  then have "call_kw f kwargs = Inl (TypeError (qualname f @ ''() '' @
               (''got an unexpected keyword argument '' @ [CHR 0x27] @ k' @ [CHR 0x27])))"
    by (simp add: call_kw_def)
  then show ?thesis by blast
next
  case None
  have "filter (\<lambda>p. map_of kwargs p = None) (params f) \<noteq> []"
    using assms by (auto simp: filter_empty_conv)
  with None have "call_kw f kwargs = Inl (TypeError (qualname f @ ''() '' @
               (''missing '' @ dec_nat (length (filter (\<lambda>p. map_of kwargs p = None) (params f))) @
                '' required positional argument'' @
                (if length (filter (\<lambda>p. map_of kwargs p = None) (params f)) = 1 then [] else ''s'')
                @ '': '' @ format_missing (filter (\<lambda>p. map_of kwargs p = None) (params f)))))"
    by (simp add: call_kw_def Let_def)
  then show ?thesis by blast
qed

subsection \<open>The lenient decoder\<close>

lemma of_char_byte_eq_iff: "(of_char c :: byte) = of_char c' \<longleftrightarrow> c = c'"
proof
  assume "(of_char c :: byte) = of_char c'"
  then have "unat (of_nat (of_char c) :: byte) = unat (of_nat (of_char c') :: byte)"
    by (simp only: of_nat_of_char)
  then show "c = c'" by (simp add: unat_of_nat)
qed simp

lemma of_char_pad: "(of_char c :: byte) = BASE64_PAD \<longleftrightarrow> c = CHR ''=''"
proof -
  have "BASE64_PAD = of_char (CHR ''='')" by (simp add: BASE64_PAD_def)
  then have "(of_char c :: byte) = BASE64_PAD \<longleftrightarrow> (of_char c :: byte) = of_char (CHR ''='')"
    by (simp only:)
  then show ?thesis by (simp only: of_char_byte_eq_iff)
qed

lemma a2b_loop_filter:
  "a2b_loop (filter (\<lambda>c. table_a2b_base64 c < 64 \<or> c = BASE64_PAD) cs) q l p bin
     = a2b_loop cs q l p bin"
proof (induction cs arbitrary: q l p bin)
  case Nil
  show ?case by simp
next
  case (Cons c cs)
  show ?case
  proof (cases "table_a2b_base64 c < 64 \<or> c = BASE64_PAD")
    case True
    then show ?thesis by (simp add: Cons.IH)
  next
    case False
    then have "c \<noteq> BASE64_PAD" "64 \<le> table_a2b_base64 c" by (simp_all add: not_less)
    then show ?thesis using False by (simp add: Cons.IH)
  qed
qed

lemma a2b_loop_nopad:
  assumes "BASE64_PAD \<notin> set cs" and "q < 4"
  shows "isl (a2b_loop cs q l p bin)
     \<longleftrightarrow> (q + length (filter (\<lambda>c. table_a2b_base64 c < 64) cs)) mod 4 \<noteq> 0"
  using assms
proof (induction cs arbitrary: q l p bin)
  case Nil
  then show ?case by simp
next
  case (Cons c cs)
  then have c: "c \<noteq> BASE64_PAD" and cs: "BASE64_PAD \<notin> set cs" by auto
  show ?case
  proof (cases "table_a2b_base64 c < 64")
    case False
    then have "64 \<le> table_a2b_base64 c" by (simp add: not_less)
    with c False Cons.IH [OF cs Cons.prems(2)] show ?thesis by simp
  next
    case True
    then have n: "\<not> 64 \<le> table_a2b_base64 c" by (simp add: not_le)
    from Cons.prems(2) consider "q = 0" | "q = 1" | "q = 2" | "q = 3" by linarith
    then show ?thesis
    proof cases
      case 1
      with c n True Cons.IH [OF cs, of 1] show ?thesis by simp
    next
      case 2
      with c n True Cons.IH [OF cs, of 2] show ?thesis by simp
    next
      case 3
      with c n True Cons.IH [OF cs, of 3] show ?thesis by simp
    next
      case 4
      with c n True Cons.IH [OF cs, of 0] show ?thesis by simp
    qed
  qed
qed

lemma is_ascii_filter: "is_ascii s \<Longrightarrow> is_ascii (filter P s)"
  by (simp add: is_ascii_def list_all_iff)

lemma b64decode_ascii: "is_ascii s \<Longrightarrow> b64decode (PStr s) = a2b_base64 (map of_char s)"
  by (simp add: b64decode_def)

lemma a2b_base64_isl:
  "isl (a2b_base64 cs) \<longleftrightarrow> (\<exists>e. a2b_base64 cs = Inl e \<and> is_binascii_Error e)"
  by (cases "a2b_base64 cs") (auto simp: a2b_base64_def dest: a2b_loop_error)

lemma base64_char_of_char:
  "base64_char = (\<lambda>c. table_a2b_base64 c < 64 \<or> c = BASE64_PAD) \<circ> of_char"
  by (auto simp: base64_char_def in_alphabet_def of_char_pad fun_eq_iff)

lemma decode_payload_error_iff:
  assumes "map_of (dicts w message) ''payload'' = Some (PStr s)" and "is_ascii s"
  shows "decode_payload message w = Inl PayloadNotBase64Error \<longleftrightarrow> isl (a2b_base64 (map of_char s))"
proof (cases "a2b_base64 (map of_char s)")
  case (Inl e)
  then have "is_binascii_Error e" by (auto simp: a2b_base64_def dest: a2b_loop_error)
  with Inl assms show ?thesis
    by (simp add: decode_payload_def dict_getitem_Some b64decode_ascii)
next
  case (Inr bs)
  with assms show ?thesis
    by (simp add: decode_payload_def dict_getitem_Some b64decode_ascii)
qed

section \<open>The claims\<close>

text \<open>
  C1. The run that shows the defect: the handler \<^verbatim>\<open>stop\<close> raises \<^verbatim>\<open>SystemExit\<close>, which
  derives from \<^verbatim>\<open>BaseException\<close> only. None of the \<^verbatim>\<open>except\<close> clauses catches it,
  \<^verbatim>\<open>reply\<close> is never bound, and \<^verbatim>\<open>finally: return reply\<close> raises
  \<^verbatim>\<open>UnboundLocalError\<close>, which \<^verbatim>\<open>generate_reply\<close> passes to its caller where the claim
  and the function's docstring promise a reply.
\<close>

theorem uncaught_fault_propagates:
  "call_kw stop [(''type'', PStr ''stop''), (''payload'', PBytes [104, 105])]
     = Inl (NonException ''stop'')
   \<and> reply_of (add_function (MessageHandler_init None) ''stop'' stop) 0
       (world_of [(''type'', PStr ''stop''), (''payload'', PStr ''aGk='')])
     = Inl (UnboundLocalError
         ''cannot access local variable 'reply' where it is not associated with a value'')"
  by code_simp

text \<open>
  C2. With a handler registered under \<^verbatim>\<open>echo\<close>, the message
  \<^verbatim>\<open>{"type": "echo", "payload": encode(P)}\<close> leads to exactly one handler call, that of
  this handler with the decoded payload \<open>P\<close>, and when the call returns the bytes \<open>R\<close> the
  reply is \<^verbatim>\<open>{"status": "ok", "payload": encode(R)}\<close>: the payload of the reply is the
  base64 text of the handler's result. A handler that returns its payload unchanged has
  \<open>R = P\<close>; the claim's own case is \<open>P\<close> the two bytes of \<^verbatim>\<open>hi\<close>, whose encoding is
  \<^verbatim>\<open>aGk=\<close>.
\<close>

theorem echo_happy_path:
  assumes "function_dictionary ''echo'' = Some f"
    and "call_kw f [(''type'', PStr ''echo''), (''payload'', PBytes P)] = Inr (PBytes R)"
    and "dicts w message = [(''type'', PStr ''echo''), (''payload'', PStr (decode_utf8 (b2a_base64 P)))]"
  shows "reply_of function_dictionary message w =
           Inr [(''status'', PStr ''ok''), (''payload'', PStr (decode_utf8 (b2a_base64 R)))]
       \<and> calls_of function_dictionary message w =
           [(''echo'', [(''type'', PStr ''echo''), (''payload'', PBytes P)])]"
proof -
  have a: "map_of (dicts w message) ''type'' = Some (PStr ''echo'')"
    and c: "map_of (dicts w message) ''payload'' = Some (PStr (decode_utf8 (b2a_base64 P)))"
    by (simp_all add: assms(3))
  have k: "dict_setitem (dicts w message) ''payload'' (PBytes P)
             = [(''type'', PStr ''echo''), (''payload'', PBytes P)]"
    by (simp add: assms(3) dict_setitem_def)
  have "reply_of function_dictionary message w =
           Inr [(''status'', PStr ''ok''), (''payload'', PStr (decode_utf8 (b2a_base64 R)))]"
    using reply_of_call [where reg = function_dictionary, OF a assms(1) c b64decode_b64encode]
    by (simp add: k assms(2) b64encode_def)
  moreover have "calls_of function_dictionary message w =
           [(''echo'', [(''type'', PStr ''echo''), (''payload'', PBytes P)])]"
    using calls_of_call [where reg = function_dictionary, OF a assms(1) c b64decode_b64encode]
    by (simp add: k)
  ultimately show ?thesis by simp
qed

theorem echo_happy_path_witness:
  "reply_of (add_function (MessageHandler_init None) ''echo'' echo) 0
     (world_of [(''type'', PStr ''echo''), (''payload'', PStr ''aGk='')])
   = Inr [(''status'', PStr ''ok''), (''payload'', PStr ''aGk='')]
   \<and> calls_of (add_function (MessageHandler_init None) ''echo'' echo) 0
     (world_of [(''type'', PStr ''echo''), (''payload'', PStr ''aGk='')])
   = [(''echo'', [(''type'', PStr ''echo''), (''payload'', PBytes (map of_char ''hi''))])]
   \<and> decode_utf8 (b2a_base64 (map of_char ''hi'')) = ''aGk=''
   \<and> reply_of (add_function (MessageHandler_init None) ''echo'' returns_ok) 0
     (world_of [(''type'', PStr ''echo''), (''payload'', PStr ''aGk='')])
   = Inr [(''status'', PStr ''ok''), (''payload'', PStr ''b2s='')]"
proof -
  have e: "decode_utf8 (b2a_base64 (map of_char ''hi'')) = ''aGk=''"
    and o: "decode_utf8 (b2a_base64 (map of_char ''ok'')) = ''b2s=''"
    by code_simp+
  have a: "(add_function (MessageHandler_init None) ''echo'' echo) ''echo'' = Some echo"
    and a': "(add_function (MessageHandler_init None) ''echo'' returns_ok) ''echo'' = Some returns_ok"
    by (simp_all add: add_function_def)
  have b: "call_kw echo [(''type'', PStr ''echo''), (''payload'', PBytes (map of_char ''hi''))]
             = Inr (PBytes (map of_char ''hi''))"
    by (simp add: call_kw_def echo_def dict_getitem_def)
  have b': "call_kw returns_ok [(''type'', PStr ''echo''), (''payload'', PBytes (map of_char ''hi''))]
             = Inr (PBytes (map of_char ''ok''))"
    by (simp add: call_kw_def returns_ok_def)
  have c: "dicts (world_of [(''type'', PStr ''echo''), (''payload'', PStr ''aGk='')]) 0
             = [(''type'', PStr ''echo''),
                (''payload'', PStr (decode_utf8 (b2a_base64 (map of_char ''hi''))))]"
    unfolding e by (simp add: world_of_def)
  from echo_happy_path [where function_dictionary = "add_function (MessageHandler_init None) ''echo'' echo",
         OF a b c]
       echo_happy_path [where function_dictionary = "add_function (MessageHandler_init None) ''echo'' returns_ok",
         OF a' b' c]
       e o
  show ?thesis by simp
qed

text \<open>
  C3. For every binary payload \<open>P\<close>, decoding what encoding produced gives back \<open>P\<close>:
  on a message whose \<^verbatim>\<open>payload\<close> is the bytes \<open>P\<close>, \<^verbatim>\<open>encode_payload\<close> succeeds and
  stores the base64 text of \<open>P\<close>, and \<^verbatim>\<open>decode_payload\<close> applied to the result succeeds
  and leaves \<open>P\<close> under \<^verbatim>\<open>payload\<close>.
\<close>

theorem payload_roundtrip:
  assumes "map_of (dicts w message) ''payload'' = Some (PBytes P)"
  shows "\<exists>w1 w2. encode_payload message w = Inr (message, w1)
           \<and> map_of (dicts w1 message) ''payload'' = Some (PStr (decode_utf8 (b2a_base64 P)))
           \<and> decode_payload message w1 = Inr (message, w2)
           \<and> map_of (dicts w2 message) ''payload'' = Some (PBytes P)"
  using assms by (simp add: encode_payload_Inr decode_payload_Inr b64decode_b64encode)

theorem payload_roundtrip_witness:
  "\<exists>w1 w2. encode_payload 0 (world_of [(''type'', PStr ''echo''), (''payload'', PBytes [104, 105])])
              = Inr (0, w1)
     \<and> map_of (dicts w1 0) ''payload'' = Some (PStr ''aGk='')
     \<and> decode_payload 0 w1 = Inr (0, w2)
     \<and> map_of (dicts w2 0) ''payload'' = Some (PBytes [104, 105])"
proof -
  have h: "map_of (dicts (world_of [(''type'', PStr ''echo''), (''payload'', PBytes [104, 105])]) 0)
             ''payload'' = Some (PBytes [104, 105])"
    by (simp add: world_of_def)
  have e: "decode_utf8 (b2a_base64 [104, 105]) = ''aGk=''"
    by code_simp
  show ?thesis
    using payload_roundtrip [OF h] unfolding e .
qed

text \<open>
  C4, as stated, fails: \<^verbatim>\<open>not-valid-encoding!!\<close> holds characters outside the alphabet
  (\<^verbatim>\<open>-\<close> and \<^verbatim>\<open>!\<close>), yet \<^verbatim>\<open>base64.b64decode\<close> in its default mode drops them and
  decodes the sixteen that remain, so \<^verbatim>\<open>decode_payload\<close> succeeds and the echo handler
  is answered with status \<^verbatim>\<open>ok\<close>.
\<close>

theorem decode_garbage_counterexample:
  "\<not> in_alphabet (CHR ''-'') \<and> \<not> in_alphabet (CHR ''!'')
   \<and> b64decode (PStr ''not-valid-encoding!!'')
       = Inr [158, 139, 111, 106, 88, 157, 122, 119, 40, 118, 41, 224]
   \<and> decode_payload 0 (world_of [(''type'', PStr ''echo''), (''payload'', PStr ''not-valid-encoding!!'')])
       \<noteq> Inl PayloadNotBase64Error
   \<and> reply_of example_registry 0
        (world_of [(''type'', PStr ''echo''), (''payload'', PStr ''not-valid-encoding!!'')])
       = Inr [(''status'', PStr ''ok''), (''payload'', PStr ''notvalidencoding'')]"
proof -
  have b: "b64decode (PStr ''not-valid-encoding!!'')
       = Inr [158, 139, 111, 106, 88, 157, 122, 119, 40, 118, 41, 224]"
    by code_simp
  have d: "decode_payload 0 (world_of [(''type'', PStr ''echo''), (''payload'', PStr ''not-valid-encoding!!'')])
       \<noteq> Inl PayloadNotBase64Error"
    by (simp add: decode_payload_def dict_getitem_def world_of_def b)
  have r: "\<not> in_alphabet (CHR ''-'') \<and> \<not> in_alphabet (CHR ''!'')
     \<and> reply_of example_registry 0
        (world_of [(''type'', PStr ''echo''), (''payload'', PStr ''not-valid-encoding!!'')])
       = Inr [(''status'', PStr ''ok''), (''payload'', PStr ''notvalidencoding'')]"
    by code_simp
  from b d r show ?thesis by blast
qed

text \<open>
  C4, amended. On a text payload of ASCII characters, \<^verbatim>\<open>decode_payload\<close> ignores the
  characters that are neither in the alphabet nor the padding character: it does what it
  does on the message whose payload has them removed. When such a payload holds no padding
  character, \<^verbatim>\<open>decode_payload\<close> raises \<^verbatim>\<open>PayloadNotBase64Error\<close> exactly when the number
  of its alphabet characters is not a multiple of four. Whenever \<^verbatim>\<open>decode_payload\<close>
  raises \<^verbatim>\<open>PayloadNotBase64Error\<close> on a message of a registered type, whatever the payload,
  the reply is the error reply with the text
  \<^verbatim>\<open>Message payload cannot be decoded from base64\<close> and no handler is called.
\<close>

theorem decode_payload_lenient:
  "(\<forall>s. map_of (dicts w message) ''payload'' = Some (PStr s) \<and> is_ascii s \<longrightarrow>
       decode_payload message (setitem message ''payload'' (PStr (filter base64_char s)) w)
         = decode_payload message w)
   \<and> (\<forall>s. map_of (dicts w message) ''payload'' = Some (PStr s) \<and> is_ascii s
            \<and> CHR ''='' \<notin> set s \<longrightarrow>
         (decode_payload message w = Inl PayloadNotBase64Error
            \<longleftrightarrow> length (filter in_alphabet s) mod 4 \<noteq> 0))
   \<and> (\<forall>t f. map_of (dicts w message) ''type'' = Some (PStr t) \<and> function_dictionary t = Some f
          \<and> decode_payload message w = Inl PayloadNotBase64Error \<longrightarrow>
        reply_of function_dictionary message w =
          Inr [(''status'', PStr ''error''),
               (''payload'', PStr ''Message payload cannot be decoded from base64'')]
        \<and> calls_of function_dictionary message w = [])"
proof (intro conjI allI impI)
  fix s
  assume a: "map_of (dicts w message) ''payload'' = Some (PStr s) \<and> is_ascii s"
  have "map of_char (filter base64_char s)
          = filter (\<lambda>c. table_a2b_base64 c < 64 \<or> c = BASE64_PAD) (map of_char s)"
    by (simp only: base64_char_of_char filter_map)
  then have b: "b64decode (PStr (filter base64_char s)) = b64decode (PStr s)"
    using a by (simp add: b64decode_ascii is_ascii_filter a2b_base64_def a2b_loop_filter)
  have g: "dict_getitem (dicts w message) ''payload'' = Inr (PStr s)"
    using a by (simp add: dict_getitem_Some)
  have g': "dict_getitem (dicts (setitem message ''payload'' (PStr (filter base64_char s)) w) message)
              ''payload'' = Inr (PStr (filter base64_char s))"
    by (simp add: dict_getitem_Some)
  show "decode_payload message (setitem message ''payload'' (PStr (filter base64_char s)) w)
         = decode_payload message w"
    unfolding decode_payload_def g g' sum.case b
    by (cases "b64decode (PStr s)") (simp_all only: sum.case setitem_overwrite)
next
  fix s
  assume a: "map_of (dicts w message) ''payload'' = Some (PStr s) \<and> is_ascii s
            \<and> CHR ''='' \<notin> set s"
  then have np: "CHR ''='' \<notin> set s" by simp
  have "BASE64_PAD \<notin> set (map of_char s)"
  proof
    assume "BASE64_PAD \<in> set (map of_char s)"
    then obtain c where "c \<in> set s" and "(of_char c :: byte) = BASE64_PAD" by auto
    with np show False by (simp add: of_char_pad)
  qed
  from a2b_loop_nopad [OF this, of 0 0 0 "[]"]
  have "isl (a2b_base64 (map of_char s))
          \<longleftrightarrow> length (filter (\<lambda>c. table_a2b_base64 c < 64) (map of_char s)) mod 4 \<noteq> 0"
    by (simp add: a2b_base64_def)
  moreover have "filter (\<lambda>c. table_a2b_base64 (of_char c) < 64) s = filter in_alphabet s"
    using np by (intro filter_cong) (auto simp: in_alphabet_def)
  then have "length (filter (\<lambda>c. table_a2b_base64 c < 64) (map of_char s))
                   = length (filter in_alphabet s)"
    by (simp add: filter_map comp_def)
  ultimately show "decode_payload message w = Inl PayloadNotBase64Error
               \<longleftrightarrow> length (filter in_alphabet s) mod 4 \<noteq> 0"
    using a by (simp add: decode_payload_error_iff)
next
  fix t f
  assume a: "map_of (dicts w message) ''type'' = Some (PStr t) \<and> function_dictionary t = Some f
              \<and> decode_payload message w = Inl PayloadNotBase64Error"
  then have v: "validate_json function_dictionary message w = Inr ()"
    by (auto simp: validate_json_Inr)
  from a have d: "decode_payload message w = Inl PayloadNotBase64Error" by simp
  from reply_of_rejected(1) [OF disjI2 [OF conjI [OF v d]]]
  show "reply_of function_dictionary message w =
              Inr [(''status'', PStr ''error''),
                   (''payload'', PStr ''Message payload cannot be decoded from base64'')]"
    by (simp add: reply_of_error)
  from reply_of_rejected(2) [OF disjI2 [OF conjI [OF v d]]]
  show "calls_of function_dictionary message w = []" .
qed

theorem decode_payload_lenient_witness:
  "decode_payload 0 (setitem 0 ''payload'' (PStr (filter base64_char ''not-base64!''))
       (world_of [(''type'', PStr ''echo''), (''payload'', PStr ''not-base64!'')]))
     = decode_payload 0 (world_of [(''type'', PStr ''echo''), (''payload'', PStr ''not-base64!'')])
   \<and> filter base64_char ''not-base64!'' = ''notbase64''
   \<and> decode_payload 0 (world_of [(''type'', PStr ''echo''), (''payload'', PStr ''not-base64!'')])
       = Inl PayloadNotBase64Error
   \<and> reply_of example_registry 0 (world_of [(''type'', PStr ''echo''), (''payload'', PStr ''not-base64!'')])
       = Inr [(''status'', PStr ''error''),
              (''payload'', PStr ''Message payload cannot be decoded from base64'')]
   \<and> decode_payload 0 (world_of [(''type'', PStr ''echo''), (''payload'', PBytes [97, 98, 99])])
       = Inl PayloadNotBase64Error
   \<and> reply_of example_registry 0 (world_of [(''type'', PStr ''echo''), (''payload'', PBytes [97, 98, 99])])
       = Inr [(''status'', PStr ''error''),
              (''payload'', PStr ''Message payload cannot be decoded from base64'')]"
proof -
  have a: "map_of (dicts (world_of [(''type'', PStr ''echo''), (''payload'', PStr ''not-base64!'')]) 0)
             ''payload'' = Some (PStr ''not-base64!'')"
    by (simp add: world_of_def)
  have b: "is_ascii ''not-base64!''"
    by code_simp
  have c: "length (filter in_alphabet ''not-base64!'') mod 4 \<noteq> 0"
    by code_simp
  have e: "CHR ''='' \<notin> set ''not-base64!''"
    by simp
  have f: "filter base64_char ''not-base64!'' = ''notbase64''"
    by code_simp
  have g: "b64decode (PBytes [97, 98, 99]) = Inl (BinasciiError ''Incorrect padding'')"
    by code_simp
  have d': "decode_payload 0 (world_of [(''type'', PStr ''echo''), (''payload'', PBytes [97, 98, 99])])
       = Inl PayloadNotBase64Error"
    by (simp add: decode_payload_def dict_getitem_def world_of_def g)
  note th = decode_payload_lenient [where function_dictionary = example_registry
              and w = "world_of [(''type'', PStr ''echo''), (''payload'', PStr ''not-base64!'')]"
              and message = 0]
  note th' = decode_payload_lenient [where function_dictionary = example_registry
              and w = "world_of [(''type'', PStr ''echo''), (''payload'', PBytes [97, 98, 99])]"
              and message = 0]
  from th [THEN conjunct1, rule_format, of "''not-base64!''"] a b
  have 1: "decode_payload 0 (setitem 0 ''payload'' (PStr (filter base64_char ''not-base64!''))
       (world_of [(''type'', PStr ''echo''), (''payload'', PStr ''not-base64!'')]))
     = decode_payload 0 (world_of [(''type'', PStr ''echo''), (''payload'', PStr ''not-base64!'')])"
    by blast
  from th [THEN conjunct2, THEN conjunct1, rule_format, of "''not-base64!''"] a b c e
  have 2: "decode_payload 0 (world_of [(''type'', PStr ''echo''), (''payload'', PStr ''not-base64!'')])
       = Inl PayloadNotBase64Error"
    by blast
  from th [THEN conjunct2, THEN conjunct2, rule_format, where t = "''echo''" and f = echo] 2
  have 3: "reply_of example_registry 0 (world_of [(''type'', PStr ''echo''), (''payload'', PStr ''not-base64!'')])
       = Inr [(''status'', PStr ''error''),
              (''payload'', PStr ''Message payload cannot be decoded from base64'')]"
    by (simp add: world_of_def example_registry_def add_function_def)
  from th' [THEN conjunct2, THEN conjunct2, rule_format, where t = "''echo''" and f = echo] d'
  have 4: "reply_of example_registry 0 (world_of [(''type'', PStr ''echo''), (''payload'', PBytes [97, 98, 99])])
       = Inr [(''status'', PStr ''error''),
              (''payload'', PStr ''Message payload cannot be decoded from base64'')]"
    by (simp add: world_of_def example_registry_def add_function_def)
  from 1 2 3 4 d' f show ?thesis by blast
qed

text \<open>
  C5, as stated, fails: the handler \<^verbatim>\<open>def h(type, payload, name)\<close> expects the field
  \<^verbatim>\<open>name\<close>, the message lacks it, and the call \<^verbatim>\<open>h(**message)\<close> raises
  \<^verbatim>\<open>TypeError\<close>, not \<^verbatim>\<open>KeyError\<close>: the reply is the catch-all \<^verbatim>\<open>Server error\<close> reply.
\<close>

theorem missing_field_counterexample:
  "map_of (dicts (world_of [(''type'', PStr ''h''), (''payload'', PStr ''aGk='')]) 0) ''name'' = None
   \<and> example_registry ''h'' = Some needs_name
   \<and> params needs_name = [''type'', ''payload'', ''name'']
   \<and> reply_of example_registry 0 (world_of [(''type'', PStr ''h''), (''payload'', PStr ''aGk='')])
     = Inr [(''status'', PStr ''error''),
            (''payload'', PStr (''Server error: h() missing 1 required positional argument: ''
                                 @ repr_str ''name''))]
   \<and> reply_of example_registry 0 (world_of [(''type'', PStr ''h''), (''payload'', PStr ''aGk='')])
     \<noteq> Inr [(''status'', PStr ''error''),
            (''payload'', PStr (''JSON object missing required field'' @ repr_str ''name''))]"
proof -
  have "example_registry ''h'' = Some needs_name"
    by (simp add: example_registry_def add_function_def)
  moreover have "params needs_name = [''type'', ''payload'', ''name'']"
    by (simp add: needs_name_def)
  moreover have
    "map_of (dicts (world_of [(''type'', PStr ''h''), (''payload'', PStr ''aGk='')]) 0) ''name'' = None
     \<and> reply_of example_registry 0 (world_of [(''type'', PStr ''h''), (''payload'', PStr ''aGk='')])
       = Inr [(''status'', PStr ''error''),
              (''payload'', PStr (''Server error: h() missing 1 required positional argument: ''
                                   @ repr_str ''name''))]
     \<and> reply_of example_registry 0 (world_of [(''type'', PStr ''h''), (''payload'', PStr ''aGk='')])
       \<noteq> Inr [(''status'', PStr ''error''),
              (''payload'', PStr (''JSON object missing required field'' @ repr_str ''name''))]"
    by code_simp
  ultimately show ?thesis by blast
qed

text \<open>
  C5, amended. A message without \<^verbatim>\<open>type\<close> is answered with the missing-field reply
  naming \<^verbatim>\<open>'type'\<close>; a message of a registered type without \<^verbatim>\<open>payload\<close> with the
  one naming \<^verbatim>\<open>'payload'\<close>; a handler call that raises \<^verbatim>\<open>KeyError\<close> with the one that
  ends with the text of that \<^verbatim>\<open>KeyError\<close>. When the handler declares a parameter that the
  message lacks, the call \<^verbatim>\<open>f(**message)\<close> raises \<^verbatim>\<open>TypeError\<close> with a text that
  starts with the function's name and \<^verbatim>\<open>()\<close>, and the reply is the \<^verbatim>\<open>Server error\<close>
  reply that carries this text. \<^verbatim>\<open>validate_json\<close>, \<^verbatim>\<open>decode_payload\<close> and
  \<^verbatim>\<open>encode_payload\<close> never raise \<^verbatim>\<open>MissingPayloadError\<close>.
\<close>

theorem missing_field_replies:
  "(map_of (dicts w message) ''type'' = None \<longrightarrow>
      reply_of function_dictionary message w =
        Inr [(''status'', PStr ''error''),
             (''payload'', PStr (''JSON object missing required field'' @ repr_str ''type''))])
   \<and> (\<forall>t f. map_of (dicts w message) ''type'' = Some (PStr t) \<and> function_dictionary t = Some f
          \<and> map_of (dicts w message) ''payload'' = None \<longrightarrow>
      reply_of function_dictionary message w =
        Inr [(''status'', PStr ''error''),
             (''payload'', PStr (''JSON object missing required field'' @ repr_str ''payload''))])
   \<and> (\<forall>t f p bs k. map_of (dicts w message) ''type'' = Some (PStr t) \<and> function_dictionary t = Some f
          \<and> map_of (dicts w message) ''payload'' = Some p \<and> b64decode p = Inr bs
          \<and> call_kw f (dict_setitem (dicts w message) ''payload'' (PBytes bs)) = Inl (KeyError k) \<longrightarrow>
      reply_of function_dictionary message w =
        Inr [(''status'', PStr ''error''),
             (''payload'', PStr (''JSON object missing required field'' @ k))])
   \<and> (\<forall>t f p bs k. map_of (dicts w message) ''type'' = Some (PStr t) \<and> function_dictionary t = Some f
          \<and> map_of (dicts w message) ''payload'' = Some p \<and> b64decode p = Inr bs
          \<and> k \<in> set (params f) \<and> map_of (dicts w message) k = None \<longrightarrow>
      (\<exists>msg. call_kw f (dict_setitem (dicts w message) ''payload'' (PBytes bs))
                = Inl (TypeError (qualname f @ ''() '' @ msg))
            \<and> reply_of function_dictionary message w =
                Inr [(''status'', PStr ''error''),
                     (''payload'', PStr (''Server error: '' @ qualname f @ ''() '' @ msg))]))
   \<and> validate_json function_dictionary message w \<noteq> Inl MissingPayloadError
   \<and> decode_payload message w \<noteq> Inl MissingPayloadError
   \<and> encode_payload message w \<noteq> Inl MissingPayloadError"
proof (intro conjI allI impI)
  assume "map_of (dicts w message) ''type'' = None"
  then have "validate_json function_dictionary message w = Inl (KeyError (repr_str ''type''))"
    by (simp add: validate_json_def dict_getitem_None)
  from reply_of_rejected(1) [OF disjI1 [OF this]]
  show "reply_of function_dictionary message w =
        Inr [(''status'', PStr ''error''),
             (''payload'', PStr (''JSON object missing required field'' @ repr_str ''type''))]"
    by (simp add: reply_of_error)
next
  fix t f
  assume a: "map_of (dicts w message) ''type'' = Some (PStr t) \<and> function_dictionary t = Some f
          \<and> map_of (dicts w message) ''payload'' = None"
  then have v: "validate_json function_dictionary message w = Inr ()"
    by (auto simp: validate_json_Inr)
  from a have d: "decode_payload message w = Inl (KeyError (repr_str ''payload''))"
    by (simp add: decode_payload_def dict_getitem_None)
  from reply_of_rejected(1) [OF disjI2 [OF conjI [OF v d]]]
  show "reply_of function_dictionary message w =
        Inr [(''status'', PStr ''error''),
             (''payload'', PStr (''JSON object missing required field'' @ repr_str ''payload''))]"
    by (simp add: reply_of_error)
next
  fix t f p bs k
  assume a: "map_of (dicts w message) ''type'' = Some (PStr t) \<and> function_dictionary t = Some f
          \<and> map_of (dicts w message) ''payload'' = Some p \<and> b64decode p = Inr bs
          \<and> call_kw f (dict_setitem (dicts w message) ''payload'' (PBytes bs)) = Inl (KeyError k)"
  then show "reply_of function_dictionary message w =
        Inr [(''status'', PStr ''error''),
             (''payload'', PStr (''JSON object missing required field'' @ k))]"
    using reply_of_call [where reg = function_dictionary and t = t and f = f and p = p and bs = bs
                           and w = w and m = message]
    by simp
next
  fix t f p bs k
  assume a: "map_of (dicts w message) ''type'' = Some (PStr t) \<and> function_dictionary t = Some f
          \<and> map_of (dicts w message) ''payload'' = Some p \<and> b64decode p = Inr bs
          \<and> k \<in> set (params f) \<and> map_of (dicts w message) k = None"
  then have "k \<noteq> ''payload''" by auto
  with a have "map_of (dict_setitem (dicts w message) ''payload'' (PBytes bs)) k = None"
    by simp
  with a obtain msg where c:
    "call_kw f (dict_setitem (dicts w message) ''payload'' (PBytes bs))
       = Inl (TypeError (qualname f @ ''() '' @ msg))"
    using call_kw_declared_missing [of k f "dict_setitem (dicts w message) ''payload'' (PBytes bs)"]
    by auto
  then have "reply_of function_dictionary message w =
                Inr [(''status'', PStr ''error''),
                     (''payload'', PStr (''Server error: '' @ qualname f @ ''() '' @ msg))]"
    using a reply_of_call [where reg = function_dictionary and t = t and f = f and p = p and bs = bs
                           and w = w and m = message]
    by simp
  with c show "\<exists>msg. call_kw f (dict_setitem (dicts w message) ''payload'' (PBytes bs))
                = Inl (TypeError (qualname f @ ''() '' @ msg))
            \<and> reply_of function_dictionary message w =
                Inr [(''status'', PStr ''error''),
                     (''payload'', PStr (''Server error: '' @ qualname f @ ''() '' @ msg))]"
    by blast
next
  show "validate_json function_dictionary message w \<noteq> Inl MissingPayloadError"
    using validate_json_Inl by blast
  show "decode_payload message w \<noteq> Inl MissingPayloadError"
    using decode_payload_Inl by blast
  show "encode_payload message w \<noteq> Inl MissingPayloadError"
    using encode_payload_Inl [of message w MissingPayloadError] by auto
qed

theorem missing_field_replies_witness:
  "reply_of example_registry 0 (world_of [(''payload'', PStr ''aGk='')])
     = Inr [(''status'', PStr ''error''),
            (''payload'', PStr (''JSON object missing required field'' @ repr_str ''type''))]
   \<and> reply_of example_registry 0 (world_of [(''type'', PStr ''echo'')])
     = Inr [(''status'', PStr ''error''),
            (''payload'', PStr (''JSON object missing required field'' @ repr_str ''payload''))]
   \<and> reply_of example_registry 0 (world_of [(''type'', PStr ''lookup''), (''payload'', PStr ''aGk='')])
     = Inr [(''status'', PStr ''error''),
            (''payload'', PStr (''JSON object missing required field'' @ repr_str ''name''))]
   \<and> (\<exists>msg. reply_of example_registry 0
               (world_of [(''type'', PStr ''h''), (''payload'', PStr ''aGk=''), (''extra'', PInt 1)])
     = Inr [(''status'', PStr ''error''),
            (''payload'', PStr (''Server error: '' @ qualname needs_name @ ''() '' @ msg))])"
proof -
  have b: "b64decode (PStr ''aGk='') = Inr [104, 105]"
    by code_simp
  have 1: "reply_of example_registry 0 (world_of [(''payload'', PStr ''aGk='')])
     = Inr [(''status'', PStr ''error''),
            (''payload'', PStr (''JSON object missing required field'' @ repr_str ''type''))]"
    using missing_field_replies [of "world_of [(''payload'', PStr ''aGk='')]" 0 example_registry,
            THEN conjunct1]
    by (simp add: world_of_def)
  have 2: "reply_of example_registry 0 (world_of [(''type'', PStr ''echo'')])
     = Inr [(''status'', PStr ''error''),
            (''payload'', PStr (''JSON object missing required field'' @ repr_str ''payload''))]"
    using missing_field_replies [of "world_of [(''type'', PStr ''echo'')]" 0 example_registry,
            THEN conjunct2, THEN conjunct1, rule_format, where t = "''echo''" and f = echo]
    by (simp add: world_of_def example_registry_def add_function_def)
  have 3: "reply_of example_registry 0 (world_of [(''type'', PStr ''lookup''), (''payload'', PStr ''aGk='')])
     = Inr [(''status'', PStr ''error''),
            (''payload'', PStr (''JSON object missing required field'' @ repr_str ''name''))]"
    using missing_field_replies [of "world_of [(''type'', PStr ''lookup''), (''payload'', PStr ''aGk='')]" 0
            example_registry, THEN conjunct2, THEN conjunct2, THEN conjunct1,
            rule_format, where t = "''lookup''" and f = lookup_name and p = "PStr ''aGk=''"
              and bs = "[104, 105]" and k = "repr_str ''name''"] b
    by (simp add: world_of_def example_registry_def add_function_def lookup_name_def
          call_kw_def dict_setitem_def dict_getitem_def)
  have 4: "\<exists>msg. reply_of example_registry 0
               (world_of [(''type'', PStr ''h''), (''payload'', PStr ''aGk=''), (''extra'', PInt 1)])
     = Inr [(''status'', PStr ''error''),
            (''payload'', PStr (''Server error: '' @ qualname needs_name @ ''() '' @ msg))]"
    using missing_field_replies [of
            "world_of [(''type'', PStr ''h''), (''payload'', PStr ''aGk=''), (''extra'', PInt 1)]" 0
            example_registry, THEN conjunct2, THEN conjunct2, THEN conjunct2, THEN conjunct1,
            rule_format, where t = "''h''" and f = needs_name and p = "PStr ''aGk=''"
              and bs = "[104, 105]" and k = "''name''"] b
    by (auto simp: world_of_def example_registry_def add_function_def needs_name_def)
  from 1 2 3 4 show ?thesis by blast
qed

text \<open>
  C6, as stated, fails: a list under \<^verbatim>\<open>type\<close> is present and is no key of the registry,
  but it cannot be hashed, so the membership test of \<^verbatim>\<open>validate_json\<close> raises
  \<^verbatim>\<open>TypeError\<close> and the reply is the catch-all \<^verbatim>\<open>Server error\<close> reply.
\<close>

theorem unrecognized_type_counterexample:
  "map_of (dicts (world_of [(''type'', PList []), (''payload'', PStr ''aGk='')]) 0) ''type''
     = Some (PList [])
   \<and> reply_of example_registry 0 (world_of [(''type'', PList []), (''payload'', PStr ''aGk='')])
     = Inr [(''status'', PStr ''error''),
            (''payload'', PStr (''Server error: unhashable type: '' @ repr_str ''list''))]
   \<and> reply_of example_registry 0 (world_of [(''type'', PList []), (''payload'', PStr ''aGk='')])
     \<noteq> Inr [(''status'', PStr ''error''), (''payload'', PStr ''File type not recognized'')]"
  by code_simp

text \<open>
  C6, amended. When the value under \<^verbatim>\<open>type\<close> is present, hashable (text, bytes, a
  number, a boolean or \<^verbatim>\<open>None\<close>) and not a key of the registry, the reply is the error
  reply with the text \<^verbatim>\<open>File type not recognized\<close>, and no handler is called.
\<close>

theorem unrecognized_type:
  assumes "map_of (dicts w message) ''type'' = Some v" and "hashable v"
    and "\<forall>t. v = PStr t \<longrightarrow> function_dictionary t = None"
  shows "reply_of function_dictionary message w =
           Inr [(''status'', PStr ''error''), (''payload'', PStr ''File type not recognized'')]
       \<and> calls_of function_dictionary message w = []"
proof -
  have "registry_contains function_dictionary v = Inr False"
    using assms(2,3) by (cases v) (simp_all add: registry_contains_def)
  with assms(1) have v: "validate_json function_dictionary message w = Inl UnrecognizedFileTypeError"
    by (simp add: validate_json_def dict_getitem_Some)
  from reply_of_rejected [OF disjI1 [OF v]] reply_of_error [of function_dictionary message w]
  show ?thesis by simp
qed

theorem unrecognized_type_witness:
  "reply_of example_registry 0 (world_of [(''type'', PStr ''nonexistent''), (''payload'', PStr [])])
     = Inr [(''status'', PStr ''error''), (''payload'', PStr ''File type not recognized'')]
   \<and> calls_of example_registry 0 (world_of [(''type'', PStr ''nonexistent''), (''payload'', PStr [])]) = []
   \<and> reply_of example_registry 0 (world_of [(''type'', PInt 3), (''payload'', PStr [])])
     = Inr [(''status'', PStr ''error''), (''payload'', PStr ''File type not recognized'')]"
proof -
  have a: "map_of (dicts (world_of [(''type'', PStr ''nonexistent''), (''payload'', PStr [])]) 0) ''type''
     = Some (PStr ''nonexistent'')"
    and a': "map_of (dicts (world_of [(''type'', PInt 3), (''payload'', PStr [])]) 0) ''type''
     = Some (PInt 3)"
    by (simp_all add: world_of_def)
  have b: "\<forall>t. PStr ''nonexistent'' = PStr t \<longrightarrow> example_registry t = None"
    by (simp add: example_registry_def add_function_def MessageHandler_init_def)
  have b': "\<forall>t. PInt 3 = PStr t \<longrightarrow> example_registry t = None"
    by simp
  from unrecognized_type [where function_dictionary = example_registry, OF a _ b]
       unrecognized_type [where function_dictionary = example_registry, OF a' _ b']
  show ?thesis by simp
qed

text \<open>
  C7, as stated, fails: a handler that raises \<^verbatim>\<open>KeyError\<close> (here \<^verbatim>\<open>lookup\<close>, which reads
  the absent field \<^verbatim>\<open>name\<close>) is answered with the missing-field reply, not with a
  \<^verbatim>\<open>Server error\<close> reply.
\<close>

theorem handler_fault_counterexample:
  "call_kw lookup_name [(''type'', PStr ''lookup''), (''payload'', PBytes [])]
     = Inl (KeyError (repr_str ''name''))
   \<and> reply_of example_registry 0 (world_of [(''type'', PStr ''lookup''), (''payload'', PStr [])])
     = Inr [(''status'', PStr ''error''),
            (''payload'', PStr (''JSON object missing required field'' @ repr_str ''name''))]
   \<and> reply_of example_registry 0 (world_of [(''type'', PStr ''lookup''), (''payload'', PStr [])])
     \<noteq> Inr [(''status'', PStr ''error''),
            (''payload'', PStr (''Server error: '' @ py_str (KeyError (repr_str ''name''))))]"
  by code_simp

text \<open>
  C7, amended. When validation and decoding succeed and the call of the registered handler
  raises an exception derived from \<^verbatim>\<open>Exception\<close> that is neither a \<^verbatim>\<open>KeyError\<close> nor one
  of the module's four error classes, the reply is the error reply whose text is
  \<^verbatim>\<open>Server error: \<close> followed by \<^verbatim>\<open>str\<close> of the exception.
\<close>

theorem handler_fault:
  assumes "map_of (dicts w message) ''type'' = Some (PStr t)"
    and "function_dictionary t = Some f"
    and "map_of (dicts w message) ''payload'' = Some p" and "b64decode p = Inr bs"
    and "call_kw f (dict_setitem (dicts w message) ''payload'' (PBytes bs)) = Inl e"
    and "is_Exception e" and "\<not> is_KeyError e" and "\<not> is_module_error e"
  shows "reply_of function_dictionary message w =
           Inr [(''status'', PStr ''error''), (''payload'', PStr (''Server error: '' @ py_str e))]"
  using reply_of_call [where reg = function_dictionary, OF assms(1-4)] assms(5-8) by simp

theorem handler_fault_witness:
  "reply_of example_registry 0 (world_of [(''type'', PStr ''boom''), (''payload'', PStr ''aGk='')]) =
     Inr [(''status'', PStr ''error''), (''payload'', PStr ''Server error: boom'')]"
proof -
  have a: "map_of (dicts (world_of [(''type'', PStr ''boom''), (''payload'', PStr ''aGk='')]) 0) ''type''
             = Some (PStr ''boom'')"
    and c: "map_of (dicts (world_of [(''type'', PStr ''boom''), (''payload'', PStr ''aGk='')]) 0) ''payload''
             = Some (PStr ''aGk='')"
    by (simp_all add: world_of_def)
  have b: "example_registry ''boom'' = Some boom"
    by (simp add: example_registry_def add_function_def)
  have d: "b64decode (PStr ''aGk='') = Inr [104, 105]"
    by code_simp
  have e: "call_kw boom (dict_setitem
             (dicts (world_of [(''type'', PStr ''boom''), (''payload'', PStr ''aGk='')]) 0)
             ''payload'' (PBytes [104, 105])) = Inl (OtherException ''boom'')"
    by (simp add: call_kw_def boom_def)
  from handler_fault [where function_dictionary = example_registry, OF a b c d e] show ?thesis by simp
qed

text \<open>
  C8. The run that shows the defect: the handler \<^verbatim>\<open>text\<close> returns a \<^verbatim>\<open>str\<close>, which
  \<^verbatim>\<open>base64.b64encode\<close> refuses with \<^verbatim>\<open>TypeError\<close>; \<^verbatim>\<open>encode_payload\<close> catches only
  \<^verbatim>\<open>binascii.Error\<close>, so the reply is the catch-all \<^verbatim>\<open>Server error\<close> reply and not
  \<^verbatim>\<open>Cannot encode payload into base64\<close>.
\<close>

theorem unencodable_result_reply:
  "call_kw returns_text [(''type'', PStr ''text''), (''payload'', PBytes [])] = Inr (PStr ''hi'')
   \<and> b64encode (PStr ''hi'')
     = Inl (TypeError (''a bytes-like object is required, not '' @ repr_str ''str''))
   \<and> reply_of example_registry 0 (world_of [(''type'', PStr ''text''), (''payload'', PStr [])])
     = Inr [(''status'', PStr ''error''),
            (''payload'', PStr (''Server error: a bytes-like object is required, not ''
                                 @ repr_str ''str''))]"
  by code_simp

text \<open>
  C9. When \<^verbatim>\<open>decode_payload\<close> or \<^verbatim>\<open>encode_payload\<close> succeeds, it returns the very
  dictionary it was given, with the same keys in the same order and every key other than
  \<^verbatim>\<open>payload\<close> bound to the value it had; no other dictionary of the store changes, none is
  created, and no handler is called.
\<close>

theorem transcode_frame:
  assumes "decode_payload message w = Inr (message', w') \<or>
           encode_payload message w = Inr (message', w')"
  shows "message' = message
       \<and> map fst (dicts w' message) = map fst (dicts w message)
       \<and> (\<forall>k. k \<noteq> ''payload'' \<longrightarrow> map_of (dicts w' message) k = map_of (dicts w message) k)
       \<and> (\<forall>r. r \<noteq> message \<longrightarrow> dicts w' r = dicts w r)
       \<and> next_ref w' = next_ref w \<and> invoked w' = invoked w"
  using assms
  by (auto simp: decode_payload_Inr encode_payload_Inr keys_dict_setitem)

theorem transcode_frame_witness:
  "decode_payload 0 (world_of [(''type'', PStr ''echo''), (''payload'', PStr ''aGk=''), (''n'', PInt 7)])
     = Inr (0, setitem 0 ''payload'' (PBytes [104, 105])
                 (world_of [(''type'', PStr ''echo''), (''payload'', PStr ''aGk=''), (''n'', PInt 7)]))
   \<and> dicts (setitem 0 ''payload'' (PBytes [104, 105])
         (world_of [(''type'', PStr ''echo''), (''payload'', PStr ''aGk=''), (''n'', PInt 7)])) 0
     = [(''type'', PStr ''echo''), (''payload'', PBytes [104, 105]), (''n'', PInt 7)]
   \<and> map fst (dicts (setitem 0 ''payload'' (PBytes [104, 105])
         (world_of [(''type'', PStr ''echo''), (''payload'', PStr ''aGk=''), (''n'', PInt 7)])) 0)
     = map fst (dicts (world_of [(''type'', PStr ''echo''), (''payload'', PStr ''aGk=''), (''n'', PInt 7)]) 0)"
proof -
  have b: "b64decode (PStr ''aGk='') = Inr [104, 105]"
    by code_simp
  have d: "decode_payload 0 (world_of [(''type'', PStr ''echo''), (''payload'', PStr ''aGk=''), (''n'', PInt 7)])
     = Inr (0, setitem 0 ''payload'' (PBytes [104, 105])
                 (world_of [(''type'', PStr ''echo''), (''payload'', PStr ''aGk=''), (''n'', PInt 7)]))"
    by (simp add: decode_payload_Inr world_of_def b)
  have v: "dicts (setitem 0 ''payload'' (PBytes [104, 105])
         (world_of [(''type'', PStr ''echo''), (''payload'', PStr ''aGk=''), (''n'', PInt 7)])) 0
     = [(''type'', PStr ''echo''), (''payload'', PBytes [104, 105]), (''n'', PInt 7)]"
    by (simp add: world_of_def dict_setitem_def)
  from transcode_frame [OF disjI1 [OF d]] d v show ?thesis by simp
qed

text \<open>
  C10. When validation and decoding succeed and the call of the registered handler raises
  \<^verbatim>\<open>KeyError\<close>, whatever the reason, the reply is the missing-field reply, whose text
  ends with \<^verbatim>\<open>str\<close> of that \<^verbatim>\<open>KeyError\<close>, not the catch-all reply.
\<close>

theorem handler_KeyError:
  assumes "map_of (dicts w message) ''type'' = Some (PStr t)"
    and "function_dictionary t = Some f"
    and "map_of (dicts w message) ''payload'' = Some p" and "b64decode p = Inr bs"
    and "call_kw f (dict_setitem (dicts w message) ''payload'' (PBytes bs)) = Inl (KeyError k)"
  shows "reply_of function_dictionary message w =
           Inr [(''status'', PStr ''error''),
                (''payload'', PStr (''JSON object missing required field'' @ k))]"
  using reply_of_call [where reg = function_dictionary, OF assms(1-4)] assms(5) by simp

theorem handler_KeyError_witness:
  "reply_of example_registry 0 (world_of [(''type'', PStr ''lookup''), (''payload'', PStr ''aGk='')]) =
     Inr [(''status'', PStr ''error''),
          (''payload'', PStr (''JSON object missing required field'' @ repr_str ''name''))]"
proof -
  have a: "map_of (dicts (world_of [(''type'', PStr ''lookup''), (''payload'', PStr ''aGk='')]) 0) ''type''
             = Some (PStr ''lookup'')"
    and c: "map_of (dicts (world_of [(''type'', PStr ''lookup''), (''payload'', PStr ''aGk='')]) 0) ''payload''
             = Some (PStr ''aGk='')"
    by (simp_all add: world_of_def)
  have b: "example_registry ''lookup'' = Some lookup_name"
    by (simp add: example_registry_def add_function_def)
  have d: "b64decode (PStr ''aGk='') = Inr [104, 105]"
    by code_simp
  have e: "call_kw lookup_name (dict_setitem
             (dicts (world_of [(''type'', PStr ''lookup''), (''payload'', PStr ''aGk='')]) 0)
             ''payload'' (PBytes [104, 105])) = Inl (KeyError (repr_str ''name''))"
    by (simp add: call_kw_def lookup_name_def world_of_def dict_setitem_def dict_getitem_def)
  from handler_KeyError [where function_dictionary = example_registry, OF a b c d e] show ?thesis .
qed
end
